theory Spec2Isabelle
  imports Complex_Main "HOL-Library.AList"
begin

section \<open>SongLang: the graph, the nodes and the tree-walking interpreter\<close>

text \<open>
  The development follows the TypeScript sources: \<open>Expression.ts\<close> and \<open>Statement.ts\<close>
  (the two syntax trees), \<open>Node.ts\<close> (class \<open>SongNode\<close>), \<open>Graph.ts\<close> (class \<open>Graph\<close>)
  and \<open>Interpreter.ts\<close> (class \<open>Interpreter\<close>).

  Conventions of the embedding.
  \<^item> A \<open>SongNode\<close> object is created only by \<open>Graph.getOrCreateNode\<close>, is stored in the
    graph under its name and is never removed, so a reference to a node is the node's
    name. The graph is an insertion-ordered association list from names to the node's
    \<open>parents\<close> (references) and \<open>properties\<close> (an insertion-ordered map).
  \<^item> The mutable objects shared by reference (\<open>Set<string>\<close> of abilities, the
    \<open>string[]\<close> of roles, the node array of a query result) live in an explicit store
    \<open>heap\<close>; a value holds the address.
  \<^item> JavaScript numbers are taken as exact reals; \<open>Math.random()\<close> is the sequence
    \<open>rand\<close> read at position \<open>rand_ix\<close>; \<open>String(x)\<close> of a number is the
    parameter \<open>numstr\<close>.
  \<^item> An exception is a value of type \<open>error\<close>; a statement returns the state it
    leaves behind together with the exception that propagates out of it, if any.
  \<^item> Recursion that the source does not bound (the walk over the parents, the call of
    a relation body) takes a depth budget; running out of it is the error
    \<open>StackOverflow\<close> (the \<open>RangeError\<close> of the JavaScript engine).
  \<^item> The source casts the values it finds under \<open>_Abilities\<close>, \<open>_Roles\<close>,
    \<open>_DoBody\<close> and \<open>_Items\<close> without a check, and a program can store any value
    there (an identifier may start with an underscore, and an unknown relation \<open>R\<close>
    stores under \<open>_R\<close>). Each cast is followed for every class of value: where
    JavaScript finds no such method or cannot iterate, the error is \<open>TypeError\<close>; where
    it goes on with an array whose elements are of another class, the run ends in
    \<open>Unmodelled\<close>, which stands for no behaviour of the source.
  \<^item> \<open>===\<close> on two statement arrays compares their contents, the syntax tree having
    no object identity here; on all other values it is the comparison of JavaScript.
\<close>

subsection \<open>Syntax trees (Expression.ts, Statement.ts)\<close>

datatype binaryOperator =
  OpAdd | OpSubtract | OpMultiply | OpDivide | OpModulo
  | OpEqual | OpNotEqual | OpLessThan | OpGreaterThan | OpLessEqual | OpGreaterEqual
  | OpAnd | OpOr

datatype unaryOperator = OpNegate | OpNot

datatype expr =
  ENumber real
  | EString string
  | EIdentifier string
  | EPropertyAccess expr string
  | EBinary expr binaryOperator expr
  | EUnary unaryOperator expr
  | EGrouping expr
  | ERandom expr expr

text \<open>The literal arguments the parser puts into a statement: numbers and strings
  (an identifier argument is its lexeme, a string).\<close>

datatype lit = LNum real | LStr string

datatype losesType = LosesAuto | LosesIs

datatype debugTarget = DebugGraph | DebugTokens | DebugAst

datatype queryPattern = Wildcard | Variable string

datatype stmt =
  Relation string string "lit list"
  | HasExpression string string expr
  | ExpressionPrint expr
  | ExpressionHas expr string "lit option" "expr option"
  | RoleDefinition string string
  | DoBlock string "stmt list"
  | Can string string
  | Loses string string losesType
  | Debug debugTarget
  | When stmt "stmt list"
  | WhenExpression whenExpression
  | Chance expr "stmt list" "stmt list option"
  | All string "string option" "stmt option"
  | Each string string "stmt list"
  | Query queryPattern string "string option" "lit option" "expr option"
and whenExpression =
  WhenX string expr "stmt list" "stmt list option" "whenExpression option"

subsection \<open>Runtime values, errors, nodes and the interpreter state\<close>

datatype val =
  VNum real
  | VStr string
  | VBool bool
  | VNull
  | VNode string
  | VSet nat
  | VRoles nat
  | VItems nat
  | VStmts "stmt list"

datatype error =
  NodeNotFound | PropertyNotFound | TypeMismatch | DivisionByZero
  | IsNeedsObject | HasNeedsProperty | HasSubjectNotNode | NotARelation
  | CollectionNotFound | UnknownStatement | UnknownOperator
  | TypeError | StackOverflow | Unmodelled

record node =
  parents :: "string list"
  properties :: "(string \<times> val) list"

datatype outLine = Line string | DebugNotImplemented debugTarget

record state =
  graph :: "(string \<times> node) list"
  heap :: "string list list"
  ctx :: "(string \<times> val) list"
  whenSubject :: "string option"
  out :: "outLine list"
  rand :: "nat \<Rightarrow> real"
  rand_ix :: nat
  numstr :: "real \<Rightarrow> string"

type_synonym result = "state \<times> error option"

definition newInterpreter :: "(nat \<Rightarrow> real) \<Rightarrow> (real \<Rightarrow> string) \<Rightarrow> state" where
  "newInterpreter r ns =
     \<lparr>graph = [], heap = [], ctx = [], whenSubject = None, out = [],
      rand = r, rand_ix = 0, numstr = ns\<rparr>"

subsection \<open>Graph.ts and the fields of SongNode\<close>

definition emptyNode :: node where
  "emptyNode = \<lparr>parents = [], properties = []\<rparr>"

definition nodeOf :: "(string \<times> node) list \<Rightarrow> string \<Rightarrow> node" where
  "nodeOf g n = (case map_of g n of Some nd \<Rightarrow> nd | None \<Rightarrow> emptyNode)"

definition hasNode :: "(string \<times> node) list \<Rightarrow> string \<Rightarrow> bool" where
  "hasNode g n = (map_of g n \<noteq> None)"

definition getNode :: "(string \<times> node) list \<Rightarrow> string \<Rightarrow> string option" where
  "getNode g n = (if hasNode g n then Some n else None)"

definition getOrCreateNode :: "string \<Rightarrow> state \<Rightarrow> state \<times> string" where
  "getOrCreateNode n st =
     (if hasNode (graph st) n then (st, n)
      else (st\<lparr>graph := graph st @ [(n, emptyNode)]\<rparr>, n))"

definition allNodes :: "(string \<times> node) list \<Rightarrow> string list" where
  "allNodes g = map fst g"

definition updNode :: "string \<Rightarrow> (node \<Rightarrow> node) \<Rightarrow> state \<Rightarrow> state" where
  "updNode n f st =
     st\<lparr>graph := map (\<lambda>(m, nd). if m = n then (m, f nd) else (m, nd)) (graph st)\<rparr>"

definition setProperty :: "string \<Rightarrow> string \<Rightarrow> val \<Rightarrow> state \<Rightarrow> state" where
  "setProperty n p v st =
     updNode n (\<lambda>nd. nd\<lparr>properties := AList.update p v (properties nd)\<rparr>) st"

definition hasOwnProperty :: "(string \<times> node) list \<Rightarrow> string \<Rightarrow> string \<Rightarrow> bool" where
  "hasOwnProperty g n p = (map_of (properties (nodeOf g n)) p \<noteq> None)"

definition removeProperty :: "string \<Rightarrow> string \<Rightarrow> state \<Rightarrow> state" where
  "removeProperty n p st =
     updNode n (\<lambda>nd. nd\<lparr>properties := AList.delete p (properties nd)\<rparr>) st"

text \<open>\<open>addParent\<close>: push unless \<open>includes\<close>. \<open>removeParent\<close>: \<open>indexOf\<close> and
  \<open>splice(index, 1)\<close>, which removes the first occurrence.\<close>

definition addParentList :: "string \<Rightarrow> string list \<Rightarrow> string list" where
  "addParentList p ps = (if p \<in> set ps then ps else ps @ [p])"

definition addParent :: "string \<Rightarrow> string \<Rightarrow> state \<Rightarrow> state" where
  "addParent n p st = updNode n (\<lambda>nd. nd\<lparr>parents := addParentList p (parents nd)\<rparr>) st"

definition removeParent :: "string \<Rightarrow> string \<Rightarrow> state \<Rightarrow> state" where
  "removeParent n p st = updNode n (\<lambda>nd. nd\<lparr>parents := remove1 p (parents nd)\<rparr>) st"

text \<open>The two recursive walks of \<open>SongNode\<close>. The \<open>for\<close> loop over the parents is the
  list recursion, the recursive method call spends one unit of depth; \<open>None\<close> is the
  exhausted budget.\<close>

fun anyParentIs :: "(string \<Rightarrow> bool option) \<Rightarrow> string list \<Rightarrow> bool option" where
  "anyParentIs f [] = Some False"
| "anyParentIs f (p # ps) =
     (case f p of None \<Rightarrow> None
      | Some True \<Rightarrow> Some True
      | Some False \<Rightarrow> anyParentIs f ps)"

fun SongNode_is :: "nat \<Rightarrow> (string \<times> node) list \<Rightarrow> string \<Rightarrow> string \<Rightarrow> bool option" where
  "SongNode_is 0 g n typeName = None"
| "SongNode_is (Suc k) g n typeName =
     (if n = typeName then Some True
      else anyParentIs (\<lambda>p. SongNode_is k g p typeName) (parents (nodeOf g n)))"

fun firstParentValue :: "(string \<Rightarrow> val option) \<Rightarrow> string list \<Rightarrow> val option" where
  "firstParentValue f [] = Some VNull"
| "firstParentValue f (p # ps) =
     (case f p of None \<Rightarrow> None
      | Some VNull \<Rightarrow> firstParentValue f ps
      | Some v \<Rightarrow> Some v)"

fun getProperty :: "nat \<Rightarrow> (string \<times> node) list \<Rightarrow> string \<Rightarrow> string \<Rightarrow> val option" where
  "getProperty 0 g n name = None"
| "getProperty (Suc k) g n name =
     (case map_of (properties (nodeOf g n)) name of
        Some v \<Rightarrow> Some v
      | None \<Rightarrow> firstParentValue (\<lambda>p. getProperty k g p name) (parents (nodeOf g n)))"

subsection \<open>The store of shared objects\<close>

definition heapGet :: "string list list \<Rightarrow> nat \<Rightarrow> string list" where
  "heapGet h a = (if a < length h then h ! a else [])"

definition heapAlloc :: "string list \<Rightarrow> state \<Rightarrow> state \<times> nat" where
  "heapAlloc xs st = (st\<lparr>heap := heap st @ [xs]\<rparr>, length (heap st))"

definition heapSet :: "nat \<Rightarrow> string list \<Rightarrow> state \<Rightarrow> state" where
  "heapSet a xs st = st\<lparr>heap := (heap st)[a := xs]\<rparr>"

text \<open>\<open>Set.add\<close> and the guarded \<open>push\<close> of a role keep the insertion order.\<close>

definition insertLast :: "string \<Rightarrow> string list \<Rightarrow> string list" where
  "insertLast x xs = (if x \<in> set xs then xs else xs @ [x])"

subsection \<open>Strings of the host language\<close>

definition upperChar :: "char \<Rightarrow> char" where
  "upperChar c =
     (if 97 \<le> (of_char c :: nat) \<and> (of_char c :: nat) \<le> 122
      then char_of ((of_char c :: nat) - 32) else c)"

definition toUpperCase :: "string \<Rightarrow> string" where
  "toUpperCase s = map upperChar s"

fun joinWith :: "string \<Rightarrow> string list \<Rightarrow> string" where
  "joinWith sep [] = []"
| "joinWith sep [x] = x"
| "joinWith sep (x # y # ys) = x @ sep @ joinWith sep (y # ys)"

definition strIncludes :: "string \<Rightarrow> string \<Rightarrow> bool" where
  "strIncludes s t = list_ex (\<lambda>i. take (length t) (drop i s) = t) [0..<Suc (length s)]"

fun mapOption :: "('a \<Rightarrow> 'b option) \<Rightarrow> 'a list \<Rightarrow> 'b list option" where
  "mapOption f [] = Some []"
| "mapOption f (x # xs) =
     (case f x of None \<Rightarrow> None
      | Some y \<Rightarrow> (case mapOption f xs of None \<Rightarrow> None | Some ys \<Rightarrow> Some (y # ys)))"

text \<open>\<open>SongNode.toString\<close>, with \<open>String(value)\<close> of a property value as the
  parameter \<open>str\<close>.\<close>

definition propToString :: "(val \<Rightarrow> string option) \<Rightarrow> string \<times> val \<Rightarrow> string option" where
  "propToString str kv =
     (case snd kv of
        VStr s \<Rightarrow> Some (fst kv @ ''='' @ [CHR 0x22] @ s @ [CHR 0x22])
      | v \<Rightarrow> (case str v of None \<Rightarrow> None | Some t \<Rightarrow> Some (fst kv @ ''='' @ t)))"

definition nodeToString ::
  "(val \<Rightarrow> string option) \<Rightarrow> (string \<times> node) list \<Rightarrow> string \<Rightarrow> string option" where
  "nodeToString str g n =
     (case mapOption (propToString str) (properties (nodeOf g n)) of
        None \<Rightarrow> None
      | Some propsArr \<Rightarrow>
          Some (''Node('' @ n
                @ (if parents (nodeOf g n) \<noteq> []
                   then '' IS '' @ joinWith '', '' (parents (nodeOf g n)) else [])
                @ '') { '' @ joinWith '', '' propsArr @ '' }''))"

text \<open>\<open>String(value)\<close> of JavaScript on the runtime values. Only the conversion of a
  node calls back into the interpreter's classes and spends depth.\<close>

fun jsString :: "nat \<Rightarrow> state \<Rightarrow> val \<Rightarrow> string option" where
  "jsString k st (VNum x) = Some (numstr st x)"
| "jsString k st (VStr s) = Some s"
| "jsString k st (VBool b) = Some (if b then ''true'' else ''false'')"
| "jsString k st VNull = Some ''null''"
| "jsString k st (VSet a) = Some ''[object Set]''"
| "jsString k st (VRoles a) = Some (joinWith '','' (heapGet (heap st) a))"
| "jsString k st (VStmts ss) = Some (joinWith '','' (map (\<lambda>s. ''[object Object]'') ss))"
| "jsString 0 st (VNode n) = None"
| "jsString (Suc k) st (VNode n) = nodeToString (jsString k st) (graph st) n"
| "jsString 0 st (VItems a) = (if heapGet (heap st) a = [] then Some [] else None)"
| "jsString (Suc k) st (VItems a) =
     (case mapOption (nodeToString (jsString k st) (graph st)) (heapGet (heap st) a) of
        None \<Rightarrow> None
      | Some ts \<Rightarrow> Some (joinWith '','' ts))"

definition litString :: "state \<Rightarrow> lit \<Rightarrow> string" where
  "litString st l = (case l of LStr s \<Rightarrow> s | LNum x \<Rightarrow> numstr st x)"

definition litVal :: "lit \<Rightarrow> val" where
  "litVal l = (case l of LStr s \<Rightarrow> VStr s | LNum x \<Rightarrow> VNum x)"

subsection \<open>Interpreter.ts: the expression evaluator\<close>

definition isTruthy :: "val \<Rightarrow> bool" where
  "isTruthy v =
     (case v of
        VNull \<Rightarrow> False
      | VBool b \<Rightarrow> b
      | VNum x \<Rightarrow> x \<noteq> 0
      | VStr s \<Rightarrow> s \<noteq> []
      | _ \<Rightarrow> True)"

definition toNumber :: "val \<Rightarrow> error + real" where
  "toNumber v =
     (case v of
        VNum x \<Rightarrow> Inr x
      | VBool b \<Rightarrow> Inr (if b then 1 else 0)
      | _ \<Rightarrow> Inl TypeMismatch)"

definition isString :: "val \<Rightarrow> bool" where
  "isString v = (case v of VStr s \<Rightarrow> True | _ \<Rightarrow> False)"

definition add :: "nat \<Rightarrow> state \<Rightarrow> val \<Rightarrow> val \<Rightarrow> error + val" where
  "add k st left right =
     (if isString left \<or> isString right then
        (case jsString k st left of
           None \<Rightarrow> Inl StackOverflow
         | Some l \<Rightarrow>
             (case jsString k st right of
                None \<Rightarrow> Inl StackOverflow
              | Some r \<Rightarrow> Inr (VStr (l @ r))))
      else
        (case toNumber left of
           Inl e \<Rightarrow> Inl e
         | Inr l \<Rightarrow> (case toNumber right of Inl e \<Rightarrow> Inl e | Inr r \<Rightarrow> Inr (VNum (l + r)))))"

definition compare :: "val \<Rightarrow> val \<Rightarrow> error + int" where
  "compare left right =
     (case toNumber left of
        Inl e \<Rightarrow> Inl e
      | Inr l \<Rightarrow>
          (case toNumber right of
             Inl e \<Rightarrow> Inl e
           | Inr r \<Rightarrow> Inr (if l < r then - 1 else if l > r then 1 else 0)))"

definition equals :: "val \<Rightarrow> val \<Rightarrow> bool" where
  "equals left right =
     (if left = VNull \<and> right = VNull then True
      else if left = VNull \<or> right = VNull then False
      else left = right)"

text \<open>The remainder of JavaScript has the sign of the dividend.\<close>

definition jsRemainder :: "real \<Rightarrow> real \<Rightarrow> real" where
  "jsRemainder a b =
     a - b * real_of_int (if 0 \<le> a / b then \<lfloor>a / b\<rfloor> else \<lceil>a / b\<rceil>)"

text \<open>The \<open>switch\<close> of \<open>evaluateBinary\<close> on the two operand values; \<open>AND\<close> and
  \<open>OR\<close> never reach it.\<close>

definition arithmetic :: "nat \<Rightarrow> state \<Rightarrow> binaryOperator \<Rightarrow> val \<Rightarrow> val \<Rightarrow> error + val" where
  "arithmetic k st operator leftVal rightVal =
     (case operator of
        OpAdd \<Rightarrow> add k st leftVal rightVal
      | OpSubtract \<Rightarrow>
          (case toNumber leftVal of
             Inl e \<Rightarrow> Inl e
           | Inr l \<Rightarrow> (case toNumber rightVal of Inl e \<Rightarrow> Inl e | Inr r \<Rightarrow> Inr (VNum (l - r))))
      | OpMultiply \<Rightarrow>
          (case toNumber leftVal of
             Inl e \<Rightarrow> Inl e
           | Inr l \<Rightarrow> (case toNumber rightVal of Inl e \<Rightarrow> Inl e | Inr r \<Rightarrow> Inr (VNum (l * r))))
      | OpDivide \<Rightarrow>
          (case toNumber rightVal of
             Inl e \<Rightarrow> Inl e
           | Inr divisor \<Rightarrow>
               if divisor = 0 then Inl DivisionByZero
               else (case toNumber leftVal of
                       Inl e \<Rightarrow> Inl e
                     | Inr l \<Rightarrow> Inr (VNum (l / divisor))))
      | OpModulo \<Rightarrow>
          (case toNumber rightVal of
             Inl e \<Rightarrow> Inl e
           | Inr divisor \<Rightarrow>
               if divisor = 0 then Inl DivisionByZero
               else (case toNumber leftVal of
                       Inl e \<Rightarrow> Inl e
                     | Inr l \<Rightarrow> Inr (VNum (jsRemainder l divisor))))
      | OpEqual \<Rightarrow> Inr (VBool (equals leftVal rightVal))
      | OpNotEqual \<Rightarrow> Inr (VBool (\<not> equals leftVal rightVal))
      | OpLessThan \<Rightarrow>
          (case compare leftVal rightVal of Inl e \<Rightarrow> Inl e | Inr c \<Rightarrow> Inr (VBool (c < 0)))
      | OpGreaterThan \<Rightarrow>
          (case compare leftVal rightVal of Inl e \<Rightarrow> Inl e | Inr c \<Rightarrow> Inr (VBool (c > 0)))
      | OpLessEqual \<Rightarrow>
          (case compare leftVal rightVal of Inl e \<Rightarrow> Inl e | Inr c \<Rightarrow> Inr (VBool (c \<le> 0)))
      | OpGreaterEqual \<Rightarrow>
          (case compare leftVal rightVal of Inl e \<Rightarrow> Inl e | Inr c \<Rightarrow> Inr (VBool (c \<ge> 0)))
      | OpAnd \<Rightarrow> Inl UnknownOperator
      | OpOr \<Rightarrow> Inl UnknownOperator)"

definition resolveIdentifier :: "nat \<Rightarrow> state \<Rightarrow> string \<Rightarrow> error + val" where
  "resolveIdentifier k st name =
     (case map_of (ctx st) name of
        Some v \<Rightarrow> Inr v
      | None \<Rightarrow>
          (case getNode (graph st) name of
             Some n \<Rightarrow> Inr (VNode n)
           | None \<Rightarrow>
               (case whenSubject st of
                  None \<Rightarrow> Inl NodeNotFound
                | Some w \<Rightarrow>
                    (case getProperty k (graph st) w name of
                       None \<Rightarrow> Inl StackOverflow
                     | Some VNull \<Rightarrow> Inl NodeNotFound
                     | Some v \<Rightarrow> Inr v))))"

definition resolvePropertyAccess :: "nat \<Rightarrow> state \<Rightarrow> val \<Rightarrow> string \<Rightarrow> error + val" where
  "resolvePropertyAccess k st obj property =
     (case obj of
        VNode n \<Rightarrow>
          (case getProperty k (graph st) n property of
             None \<Rightarrow> Inl StackOverflow
           | Some VNull \<Rightarrow> Inl PropertyNotFound
           | Some v \<Rightarrow> Inr v)
      | _ \<Rightarrow> Inl TypeMismatch)"

text \<open>\<open>evaluateRandom\<close> after both endpoints are numbers; \<open>u\<close> is the value of
  \<open>Math.random()\<close>.\<close>

definition randomInteger :: "real \<Rightarrow> real \<Rightarrow> real \<Rightarrow> int" where
  "randomInteger u a b =
     (let min = \<lfloor>a\<rfloor>; max = \<lfloor>b\<rfloor>
      in \<lfloor>u * real_of_int (max - min + 1)\<rfloor> + min)"

text \<open>Evaluation reads the state and changes nothing but the position in the random
  sequence, which is threaded as the last argument and returned.\<close>

fun evaluateExpression ::
  "nat \<Rightarrow> state \<Rightarrow> expr \<Rightarrow> nat \<Rightarrow> (error + val) \<times> nat" where
  "evaluateExpression k st (ENumber x) i = (Inr (VNum x), i)"
| "evaluateExpression k st (EString s) i = (Inr (VStr s), i)"
| "evaluateExpression k st (EIdentifier name) i = (resolveIdentifier k st name, i)"
| "evaluateExpression k st (EPropertyAccess object property) i =
     (case evaluateExpression k st object i of
        (Inl e, i1) \<Rightarrow> (Inl e, i1)
      | (Inr obj, i1) \<Rightarrow> (resolvePropertyAccess k st obj property, i1))"
| "evaluateExpression k st (EBinary left operator right) i =
     (if operator = OpAnd then
        (case evaluateExpression k st left i of
           (Inl e, i1) \<Rightarrow> (Inl e, i1)
         | (Inr leftVal, i1) \<Rightarrow>
             if \<not> isTruthy leftVal then (Inr (VBool False), i1)
             else
               (case evaluateExpression k st right i1 of
                  (Inl e, i2) \<Rightarrow> (Inl e, i2)
                | (Inr rightVal, i2) \<Rightarrow> (Inr (VBool (isTruthy rightVal)), i2)))
      else if operator = OpOr then
        (case evaluateExpression k st left i of
           (Inl e, i1) \<Rightarrow> (Inl e, i1)
         | (Inr leftVal, i1) \<Rightarrow>
             if isTruthy leftVal then (Inr (VBool True), i1)
             else
               (case evaluateExpression k st right i1 of
                  (Inl e, i2) \<Rightarrow> (Inl e, i2)
                | (Inr rightVal, i2) \<Rightarrow> (Inr (VBool (isTruthy rightVal)), i2)))
      else
        (case evaluateExpression k st left i of
           (Inl e, i1) \<Rightarrow> (Inl e, i1)
         | (Inr leftVal, i1) \<Rightarrow>
             (case evaluateExpression k st right i1 of
                (Inl e, i2) \<Rightarrow> (Inl e, i2)
              | (Inr rightVal, i2) \<Rightarrow> (arithmetic k st operator leftVal rightVal, i2))))"
| "evaluateExpression k st (EUnary operator operand) i =
     (case evaluateExpression k st operand i of
        (Inl e, i1) \<Rightarrow> (Inl e, i1)
      | (Inr v, i1) \<Rightarrow>
          (case operator of
             OpNegate \<Rightarrow>
               (case toNumber v of Inl e \<Rightarrow> (Inl e, i1) | Inr x \<Rightarrow> (Inr (VNum (- x)), i1))
           | OpNot \<Rightarrow> (Inr (VBool (\<not> isTruthy v)), i1)))"
| "evaluateExpression k st (EGrouping inner) i = evaluateExpression k st inner i"
| "evaluateExpression k st (ERandom emin emax) i =
     (case evaluateExpression k st emin i of
        (Inl e, i1) \<Rightarrow> (Inl e, i1)
      | (Inr minValue, i1) \<Rightarrow>
          (case evaluateExpression k st emax i1 of
             (Inl e, i2) \<Rightarrow> (Inl e, i2)
           | (Inr maxValue, i2) \<Rightarrow>
               (case toNumber minValue of
                  Inl e \<Rightarrow> (Inl e, i2)
                | Inr a \<Rightarrow>
                    (case toNumber maxValue of
                       Inl e \<Rightarrow> (Inl e, i2)
                     | Inr b \<Rightarrow>
                         (Inr (VNum (real_of_int (randomInteger (rand st i2) a b))), Suc i2)))))"

text \<open>Evaluation inside a statement: the position consumed is written back.\<close>

definition evaluate :: "nat \<Rightarrow> expr \<Rightarrow> state \<Rightarrow> (error + val) \<times> state" where
  "evaluate k e st =
     (case evaluateExpression k st e (rand_ix st) of (r, i) \<Rightarrow> (r, st\<lparr>rand_ix := i\<rparr>))"

subsection \<open>Interpreter.ts: helpers shared by the statements\<close>

text \<open>\<open>execute\<close>: the loop over a statement list; an exception leaves the loop. The
  executor of a single statement is the parameter \<open>ex\<close>, so that every method below
  is a definition of its own and \<open>executeStatement\<close> ties the knot.\<close>

fun execute :: "(stmt \<Rightarrow> state \<Rightarrow> result) \<Rightarrow> stmt list \<Rightarrow> state \<Rightarrow> result" where
  "execute ex [] st = (st, None)"
| "execute ex (s # ss) st =
     (case ex s st of
        (st1, None) \<Rightarrow> execute ex ss st1
      | (st1, Some e) \<Rightarrow> (st1, Some e))"

text \<open>A \<open>for ... of\<close> loop over nodes whose body may throw.\<close>

fun forEachNode :: "(string \<Rightarrow> state \<Rightarrow> result) \<Rightarrow> string list \<Rightarrow> state \<Rightarrow> result" where
  "forEachNode body [] st = (st, None)"
| "forEachNode body (n # ns) st =
     (case body n st of
        (st1, None) \<Rightarrow> forEachNode body ns st1
      | (st1, Some e) \<Rightarrow> (st1, Some e))"

text \<open>\<open>Array.filter\<close> with a predicate that may throw.\<close>

fun filterNodes :: "(string \<Rightarrow> error + bool) \<Rightarrow> string list \<Rightarrow> error + string list" where
  "filterNodes f [] = Inr []"
| "filterNodes f (n # ns) =
     (case f n of
        Inl e \<Rightarrow> Inl e
      | Inr b \<Rightarrow>
          (case filterNodes f ns of
             Inl e \<Rightarrow> Inl e
           | Inr r \<Rightarrow> Inr (if b then n # r else r)))"

definition onOutput :: "outLine \<Rightarrow> state \<Rightarrow> state" where
  "onOutput l st = st\<lparr>out := out st @ [l]\<rparr>"

definition ctxSet :: "string \<Rightarrow> val \<Rightarrow> state \<Rightarrow> state" where
  "ctxSet name v st = st\<lparr>ctx := AList.update name v (ctx st)\<rparr>"

definition ctxDelete :: "string \<Rightarrow> state \<Rightarrow> state" where
  "ctxDelete name st = st\<lparr>ctx := AList.delete name (ctx st)\<rparr>"

definition random :: "state \<Rightarrow> real \<times> state" where
  "random st = (rand st (rand_ix st), st\<lparr>rand_ix := Suc (rand_ix st)\<rparr>)"

definition resolveNode :: "string \<Rightarrow> state \<Rightarrow> state \<times> string" where
  "resolveNode name st =
     (case map_of (ctx st) name of
        Some (VNode n) \<Rightarrow> (st, n)
      | _ \<Rightarrow> getOrCreateNode name st)"

definition resolveNodeOrNull :: "string \<Rightarrow> state \<Rightarrow> string option" where
  "resolveNodeOrNull name st =
     (case map_of (ctx st) name of
        Some (VNode n) \<Rightarrow> Some n
      | _ \<Rightarrow> getNode (graph st) name)"

definition isOf :: "nat \<Rightarrow> state \<Rightarrow> string \<Rightarrow> string \<Rightarrow> error + bool" where
  "isOf k st n typeName =
     (case SongNode_is k (graph st) n typeName of None \<Rightarrow> Inl StackOverflow | Some b \<Rightarrow> Inr b)"

text \<open>\<open>String(stmt.arguments[0])\<close>; of a missing argument it is the text
  \<open>undefined\<close>.\<close>

definition firstArgString :: "state \<Rightarrow> lit list \<Rightarrow> string" where
  "firstArgString st args = (case args of [] \<Rightarrow> ''undefined'' | a # _ \<Rightarrow> litString st a)"

text \<open>The value \<open>HAS\<close> stores for a literal: \<open>null\<close> when absent, the node when the
  string names an existing node.\<close>

definition promote :: "state \<Rightarrow> lit option \<Rightarrow> val" where
  "promote st v =
     (case v of
        None \<Rightarrow> VNull
      | Some (LNum x) \<Rightarrow> VNum x
      | Some (LStr s) \<Rightarrow> (case getNode (graph st) s of Some n \<Rightarrow> VNode n | None \<Rightarrow> VStr s))"

text \<open>The test of a literal against a property value, in \<open>evaluateHasCondition\<close> and
  \<open>matchesHasQuery\<close>: tolerance on two numbers, \<open>===\<close> otherwise.\<close>

definition litMatches :: "lit \<Rightarrow> val \<Rightarrow> bool" where
  "litMatches l v =
     (case l of
        LNum a \<Rightarrow> (case v of VNum b \<Rightarrow> \<bar>a - b\<bar> < 0.0001 | _ \<Rightarrow> False)
      | LStr s \<Rightarrow> (case v of VStr t \<Rightarrow> s = t | _ \<Rightarrow> False))"

fun anyParentCan :: "(string \<Rightarrow> error + bool) \<Rightarrow> string list \<Rightarrow> error + bool" where
  "anyParentCan f [] = Inr False"
| "anyParentCan f (p # ps) =
     (case f p of
        Inl e \<Rightarrow> Inl e
      | Inr True \<Rightarrow> Inr True
      | Inr False \<Rightarrow> anyParentCan f ps)"

fun nodeCan :: "nat \<Rightarrow> state \<Rightarrow> string \<Rightarrow> string \<Rightarrow> error + bool" where
  "nodeCan 0 st n ability = Inl StackOverflow"
| "nodeCan (Suc k) st n ability =
     (case getProperty k (graph st) n ''_Abilities'' of
        None \<Rightarrow> Inl StackOverflow
      | Some VNull \<Rightarrow>
          anyParentCan (\<lambda>p. nodeCan k st p ability) (parents (nodeOf (graph st) n))
      | Some (VSet a) \<Rightarrow>
          if ability \<in> set (heapGet (heap st) a) then Inr True
          else anyParentCan (\<lambda>p. nodeCan k st p ability) (parents (nodeOf (graph st) n))
      | Some _ \<Rightarrow> Inl TypeError)"

subsection \<open>Interpreter.ts: the statements without a body\<close>

definition executeIs :: "string \<Rightarrow> lit list \<Rightarrow> state \<Rightarrow> result" where
  "executeIs subject args st =
     (case args of
        [] \<Rightarrow> (st, Some IsNeedsObject)
      | objName # _ \<Rightarrow>
          (case resolveNode (litString st objName) st of
             (st1, parent) \<Rightarrow> (addParent subject parent st1, None)))"

definition executeHas :: "string \<Rightarrow> lit list \<Rightarrow> state \<Rightarrow> result" where
  "executeHas subject args st =
     (case args of
        [] \<Rightarrow> (st, Some HasNeedsProperty)
      | propName # rest \<Rightarrow>
          (setProperty subject (litString st propName)
             (promote st (case rest of [] \<Rightarrow> None | v # _ \<Rightarrow> Some v)) st, None))"

definition executeHasExpression :: "nat \<Rightarrow> string \<Rightarrow> string \<Rightarrow> expr \<Rightarrow> state \<Rightarrow> result" where
  "executeHasExpression k subj property valueExpression st =
     (case resolveNode subj st of
        (st1, subject) \<Rightarrow>
          (case evaluate k valueExpression st1 of
             (Inl e, st2) \<Rightarrow> (st2, Some e)
           | (Inr v, st2) \<Rightarrow> (setProperty subject property v st2, None)))"

definition executePrint :: "nat \<Rightarrow> string \<Rightarrow> state \<Rightarrow> result" where
  "executePrint k subject st =
     (case getProperty k (graph st) subject ''Name'' of
        None \<Rightarrow> (st, Some StackOverflow)
      | Some VNull \<Rightarrow> (onOutput (Line subject) st, None)
      | Some name \<Rightarrow>
          (case jsString k st name of
             None \<Rightarrow> (st, Some StackOverflow)
           | Some t \<Rightarrow> (onOutput (Line t) st, None)))"

definition executeExpressionPrint :: "nat \<Rightarrow> expr \<Rightarrow> state \<Rightarrow> result" where
  "executeExpressionPrint k e st =
     (case evaluate k e st of
        (Inl err, st1) \<Rightarrow> (st1, Some err)
      | (Inr (VNode n), st1) \<Rightarrow> executePrint k n st1
      | (Inr v, st1) \<Rightarrow>
          (case jsString k st1 v of
             None \<Rightarrow> (st1, Some StackOverflow)
           | Some t \<Rightarrow> (onOutput (Line t) st1, None)))"

definition executeExpressionHas ::
  "nat \<Rightarrow> expr \<Rightarrow> string \<Rightarrow> lit option \<Rightarrow> expr option \<Rightarrow> state \<Rightarrow> result" where
  "executeExpressionHas k e property literalValue valueExpression st =
     (case evaluate k e st of
        (Inl err, st1) \<Rightarrow> (st1, Some err)
      | (Inr (VNode subject), st1) \<Rightarrow>
          (case valueExpression of
             Some ve \<Rightarrow>
               (case evaluate k ve st1 of
                  (Inl err, st2) \<Rightarrow> (st2, Some err)
                | (Inr v, st2) \<Rightarrow> (setProperty subject property v st2, None))
           | None \<Rightarrow> (setProperty subject property (promote st1 literalValue) st1, None))
      | (Inr _, st1) \<Rightarrow> (st1, Some HasSubjectNotNode))"

text \<open>\<open>executeRoleDefinition\<close>. The value found under \<open>_Roles\<close> is cast unchecked: on a
  string, \<open>includes\<close> is the substring test and \<open>push\<close> does not exist; on a number,
  a boolean, a node or a set \<open>includes\<close> does not exist; a push into an array of
  another element class is outside the typed values (\<open>Unmodelled\<close>).\<close>

definition executeRoleDefinition :: "nat \<Rightarrow> string \<Rightarrow> string \<Rightarrow> state \<Rightarrow> result" where
  "executeRoleDefinition k subj roleName st =
     (case getOrCreateNode subj st of
        (st1, subject) \<Rightarrow>
          (case getProperty k (graph st1) subject ''_Roles'' of
             None \<Rightarrow> (st1, Some StackOverflow)
           | Some VNull \<Rightarrow>
               (case heapAlloc [] st1 of
                  (st2, a) \<Rightarrow>
                    (heapSet a (insertLast roleName (heapGet (heap st2) a))
                       (setProperty subject ''_Roles'' (VRoles a) st2), None))
           | Some (VRoles a) \<Rightarrow>
               (heapSet a (insertLast roleName (heapGet (heap st1) a)) st1, None)
           | Some (VStr s) \<Rightarrow>
               if strIncludes s roleName then (st1, None) else (st1, Some TypeError)
           | Some (VItems a) \<Rightarrow> (st1, Some Unmodelled)
           | Some (VStmts ss) \<Rightarrow> (st1, Some Unmodelled)
           | Some _ \<Rightarrow> (st1, Some TypeError)))"

definition executeDoBlock :: "string \<Rightarrow> stmt list \<Rightarrow> state \<Rightarrow> result" where
  "executeDoBlock subj body st =
     (case resolveNode subj st of
        (st1, subject) \<Rightarrow> (setProperty subject ''_DoBody'' (VStmts body) st1, None))"

text \<open>\<open>executeCan\<close>: the set is the one the inherited lookup \<open>getProperty\<close> returns; a
  new one is made and stored on the subject only when that lookup is \<open>null\<close>.\<close>

definition executeCan :: "nat \<Rightarrow> string \<Rightarrow> string \<Rightarrow> state \<Rightarrow> result" where
  "executeCan k subj ability st =
     (case resolveNode subj st of
        (st1, subject) \<Rightarrow>
          (case getProperty k (graph st1) subject ''_Abilities'' of
             None \<Rightarrow> (st1, Some StackOverflow)
           | Some VNull \<Rightarrow>
               (case heapAlloc [] st1 of
                  (st2, a) \<Rightarrow>
                    (heapSet a (insertLast ability (heapGet (heap st2) a))
                       (setProperty subject ''_Abilities'' (VSet a) st2), None))
           | Some (VSet a) \<Rightarrow>
               (heapSet a (insertLast ability (heapGet (heap st1) a)) st1, None)
           | Some _ \<Rightarrow> (st1, Some TypeError)))"

definition executeLoses :: "nat \<Rightarrow> string \<Rightarrow> string \<Rightarrow> losesType \<Rightarrow> state \<Rightarrow> result" where
  "executeLoses k subj target type st =
     (case resolveNode subj st of
        (st1, subject) \<Rightarrow>
          (case type of
             LosesIs \<Rightarrow>
               (case resolveNodeOrNull target st1 of
                  Some parent \<Rightarrow> (removeParent subject parent st1, None)
                | None \<Rightarrow> (st1, None))
           | LosesAuto \<Rightarrow>
               (case getProperty k (graph st1) subject ''_Abilities'' of
                  None \<Rightarrow> (st1, Some StackOverflow)
                | Some VNull \<Rightarrow>
                    if hasOwnProperty (graph st1) subject target
                    then (removeProperty subject target st1, None) else (st1, None)
                | Some (VSet a) \<Rightarrow>
                    if target \<in> set (heapGet (heap st1) a)
                    then (heapSet a (remove1 target (heapGet (heap st1) a)) st1, None)
                    else if hasOwnProperty (graph st1) subject target
                    then (removeProperty subject target st1, None) else (st1, None)
                | Some _ \<Rightarrow> (st1, Some TypeError))))"

subsection \<open>Interpreter.ts: conditions of the legacy WHEN\<close>

definition evaluateHasCondition :: "nat \<Rightarrow> state \<Rightarrow> string \<Rightarrow> lit list \<Rightarrow> error + bool" where
  "evaluateHasCondition k st n args =
     (case args of
        [] \<Rightarrow> Inr False
      | propName # rest \<Rightarrow>
          (case getProperty k (graph st) n (litString st propName) of
             None \<Rightarrow> Inl StackOverflow
           | Some propValue \<Rightarrow>
               (case rest of
                  [] \<Rightarrow> Inr (propValue \<noteq> VNull)
                | relValue # _ \<Rightarrow>
                    if propValue = VNull then Inr False
                    else Inr (litMatches relValue propValue))))"

definition evaluateCondition :: "nat \<Rightarrow> state \<Rightarrow> stmt \<Rightarrow> error + bool" where
  "evaluateCondition k st condition =
     (case condition of
        Relation subj rel args \<Rightarrow>
          (case getNode (graph st) subj of
             None \<Rightarrow> Inr False
           | Some n \<Rightarrow>
               if toUpperCase rel = ''HAS'' then evaluateHasCondition k st n args
               else if toUpperCase rel = ''IS'' then isOf k st n (firstArgString st args)
               else if toUpperCase rel = ''CAN'' then nodeCan k st n (firstArgString st args)
               else Inr False)
      | _ \<Rightarrow> Inr False)"

subsection \<open>Interpreter.ts: relations\<close>

text \<open>The value under \<open>_DoBody\<close> as the list \<open>execute\<close> iterates. A statement list
  is itself; an empty string, set or array iterates nothing; an element that is no
  statement falls to the \<open>default\<close> of \<open>executeStatement\<close>; a number, a boolean and
  a node are not iterable.\<close>

definition asStatements :: "state \<Rightarrow> val \<Rightarrow> error + stmt list" where
  "asStatements st v =
     (case v of
        VStmts ss \<Rightarrow> Inr ss
      | VStr s \<Rightarrow> if s = [] then Inr [] else Inl UnknownStatement
      | VSet a \<Rightarrow> if heapGet (heap st) a = [] then Inr [] else Inl UnknownStatement
      | VRoles a \<Rightarrow> if heapGet (heap st) a = [] then Inr [] else Inl UnknownStatement
      | VItems a \<Rightarrow> if heapGet (heap st) a = [] then Inr [] else Inl UnknownStatement
      | _ \<Rightarrow> Inl TypeError)"

definition executeBody :: "(stmt \<Rightarrow> state \<Rightarrow> result) \<Rightarrow> val \<Rightarrow> state \<Rightarrow> result" where
  "executeBody ex doBody st =
     (case asStatements st doBody of
        Inl e \<Rightarrow> (st, Some e)
      | Inr ss \<Rightarrow> execute ex ss st)"

text \<open>The keys \<open>roles[0], roles[1], ...\<close> of the value under \<open>_Roles\<close>, as far as
  \<open>roles.length > 0\<close> sees them: the strings of a role array, the characters of a
  string; the elements of another array are objects, keys that no lookup by name
  finds (\<open>None\<close>); every other value has no \<open>length\<close>.\<close>

definition roleKeys :: "state \<Rightarrow> val \<Rightarrow> string option list" where
  "roleKeys st v =
     (case v of
        VRoles a \<Rightarrow> map Some (heapGet (heap st) a)
      | VStr s \<Rightarrow> map (\<lambda>c. Some [c]) s
      | VItems a \<Rightarrow> map (\<lambda>x. None) (heapGet (heap st) a)
      | VStmts ss \<Rightarrow> map (\<lambda>x. None) ss
      | _ \<Rightarrow> [])"

definition bindKey :: "string option \<Rightarrow> val \<Rightarrow> state \<Rightarrow> state" where
  "bindKey key v st = (case key of Some name \<Rightarrow> ctxSet name v st | None \<Rightarrow> st)"

text \<open>The loop \<open>for (i = 1; i < roles.length && i <= arguments.length; i++)\<close>, on the
  roles after the first and the arguments.\<close>

fun bindRoles :: "string option list \<Rightarrow> lit list \<Rightarrow> state \<Rightarrow> state" where
  "bindRoles (role # roles) (arg # args) st =
     (if litString st arg \<noteq> [] then
        (case getOrCreateNode (litString st arg) st of
           (st1, n) \<Rightarrow> bindRoles roles args (bindKey role (VNode n) st1))
      else bindRoles roles args st)"
| "bindRoles roles args st = st"

fun unbindRoles :: "string option list \<Rightarrow> state \<Rightarrow> state" where
  "unbindRoles [] st = st"
| "unbindRoles (Some role # roles) st = unbindRoles roles (ctxDelete role st)"
| "unbindRoles (None # roles) st = unbindRoles roles st"

definition executeCustomRelation ::
  "(stmt \<Rightarrow> state \<Rightarrow> result) \<Rightarrow> nat \<Rightarrow> string \<Rightarrow> string \<Rightarrow> lit list \<Rightarrow> state \<Rightarrow> result" where
  "executeCustomRelation ex k subject rel args st =
     (case getNode (graph st) rel of
        None \<Rightarrow>
          (case args of
             [] \<Rightarrow> (st, None)
           | a # _ \<Rightarrow>
               (case getOrCreateNode (litString st a) st of
                  (st1, objNode) \<Rightarrow> (setProperty subject (''_'' @ rel) (VStr objNode) st1, None)))
      | Some relationNode \<Rightarrow>
          (case SongNode_is k (graph st) relationNode ''RELATION'' of
             None \<Rightarrow> (st, Some StackOverflow)
           | Some False \<Rightarrow> (st, Some NotARelation)
           | Some True \<Rightarrow>
               (case getProperty k (graph st) relationNode ''_DoBody'' of
                  None \<Rightarrow> (st, Some StackOverflow)
                | Some VNull \<Rightarrow> (st, None)
                | Some doBody \<Rightarrow>
                    (case getProperty k (graph st) relationNode ''_Roles'' of
                       None \<Rightarrow> (st, Some StackOverflow)
                     | Some roles \<Rightarrow>
                         (case roleKeys st roles of
                            [] \<Rightarrow> executeBody ex doBody st
                          | role0 # others \<Rightarrow>
                              (case executeBody ex doBody
                                      (bindRoles others args (bindKey role0 (VNode subject) st)) of
                                 (st1, Some e) \<Rightarrow> (st1, Some e)
                               | (st1, None) \<Rightarrow> (unbindRoles (roleKeys st1 roles) st1, None)))))))"

definition executeRelation ::
  "(stmt \<Rightarrow> state \<Rightarrow> result) \<Rightarrow> nat \<Rightarrow> string \<Rightarrow> string \<Rightarrow> lit list \<Rightarrow> state \<Rightarrow> result" where
  "executeRelation ex k subj rel args st =
     (case resolveNode subj st of
        (st1, subject) \<Rightarrow>
          if toUpperCase rel = ''IS'' then executeIs subject args st1
          else if toUpperCase rel = ''HAS'' then executeHas subject args st1
          else if toUpperCase rel = ''PRINT'' then executePrint k subject st1
          else executeCustomRelation ex k subject rel args st1)"

subsection \<open>Interpreter.ts: the statements with a body\<close>

definition executeWhen ::
  "(stmt \<Rightarrow> state \<Rightarrow> result) \<Rightarrow> nat \<Rightarrow> stmt \<Rightarrow> stmt list \<Rightarrow> state \<Rightarrow> result" where
  "executeWhen ex k condition body st =
     (case evaluateCondition k st condition of
        Inl e \<Rightarrow> (st, Some e)
      | Inr True \<Rightarrow> execute ex body st
      | Inr False \<Rightarrow> (st, None))"

text \<open>\<open>executeWhenExpression\<close>: the \<open>finally\<close> block runs on the state the \<open>try\<close> block
  leaves, whether an exception propagates or not.\<close>

fun executeWhenExpression ::
  "(stmt \<Rightarrow> state \<Rightarrow> result) \<Rightarrow> nat \<Rightarrow> whenExpression \<Rightarrow> state \<Rightarrow> result" where
  "executeWhenExpression ex k (WhenX subj condition body elseBody elseWhen) st =
     (case (case evaluate k condition
                   ((case getNode (graph st) subj of
                       Some n \<Rightarrow> ctxSet subj (VNode n) st
                     | None \<Rightarrow> st)\<lparr>whenSubject := getNode (graph st) subj\<rparr>) of
              (Inl e, st1) \<Rightarrow> (st1, Some e)
            | (Inr r, st1) \<Rightarrow>
                if isTruthy r then execute ex body st1
                else (case elseWhen of
                        Some w \<Rightarrow> executeWhenExpression ex k w st1
                      | None \<Rightarrow>
                          (case elseBody of
                             Some b \<Rightarrow> execute ex b st1
                           | None \<Rightarrow> (st1, None)))) of
        (st2, err) \<Rightarrow>
          ((case getNode (graph st) subj of
              Some n \<Rightarrow> ctxDelete subj (st2\<lparr>whenSubject := whenSubject st\<rparr>)
            | None \<Rightarrow> st2\<lparr>whenSubject := whenSubject st\<rparr>), err))"

definition executeChance ::
  "(stmt \<Rightarrow> state \<Rightarrow> result) \<Rightarrow> nat \<Rightarrow> expr \<Rightarrow> stmt list \<Rightarrow> stmt list option \<Rightarrow> state \<Rightarrow> result" where
  "executeChance ex k percentExpr body elseBody st =
     (case evaluate k percentExpr st of
        (Inl e, st1) \<Rightarrow> (st1, Some e)
      | (Inr percentValue, st1) \<Rightarrow>
          (case toNumber percentValue of
             Inl e \<Rightarrow> (st1, Some e)
           | Inr percent \<Rightarrow>
               (case random st1 of
                  (u, st2) \<Rightarrow>
                    if real_of_int \<lfloor>u * 100\<rfloor> < percent then execute ex body st2
                    else (case elseBody of
                            Some b \<Rightarrow> execute ex b st2
                          | None \<Rightarrow> (st2, None)))))"

text \<open>\<open>getQueryResults\<close>: the array under \<open>_Items\<close> of a node that is a
  \<open>QueryResult\<close>. A value of another class under \<open>_Items\<close> is outside the typed
  values.\<close>

definition getQueryResults :: "nat \<Rightarrow> state \<Rightarrow> string \<Rightarrow> error + string list" where
  "getQueryResults k st variableName =
     (case getNode (graph st) variableName of
        None \<Rightarrow> Inr []
      | Some resultNode \<Rightarrow>
          (case SongNode_is k (graph st) resultNode ''QueryResult'' of
             None \<Rightarrow> Inl StackOverflow
           | Some False \<Rightarrow> Inr []
           | Some True \<Rightarrow>
               (case getProperty k (graph st) resultNode ''_Items'' of
                  None \<Rightarrow> Inl StackOverflow
                | Some VNull \<Rightarrow> Inr []
                | Some (VItems a) \<Rightarrow> Inr (heapGet (heap st) a)
                | Some _ \<Rightarrow> Inl Unmodelled)))"

definition executeActionOnNode ::
  "(stmt \<Rightarrow> state \<Rightarrow> result) \<Rightarrow> stmt \<Rightarrow> string \<Rightarrow> state \<Rightarrow> result" where
  "executeActionOnNode ex action n st =
     (case action of
        Relation subj rel args \<Rightarrow> ex (Relation n rel args) st
      | _ \<Rightarrow> (st, None))"

definition executeAll ::
  "(stmt \<Rightarrow> state \<Rightarrow> result) \<Rightarrow> nat \<Rightarrow> string \<Rightarrow> string option \<Rightarrow> stmt option \<Rightarrow> state \<Rightarrow> result" where
  "executeAll ex k typeName queryVariable action st =
     (case queryVariable of
        Some qv \<Rightarrow>
          (case getQueryResults k st qv of
             Inl e \<Rightarrow> (st, Some e)
           | Inr matchingNodes \<Rightarrow>
               if matchingNodes = [] then
                 (onOutput (Line (''ALL ?'' @ qv @ '': No query results found (run query first)'')) st,
                  None)
               else
                 (case action of
                    None \<Rightarrow>
                      (onOutput (Line (''ALL ?'' @ qv @ '': ''
                                  @ numstr st (real (length matchingNodes)) @ '' nodes found'')) st,
                       None)
                  | Some a \<Rightarrow> forEachNode (executeActionOnNode ex a) matchingNodes st))
      | None \<Rightarrow>
          (case filterNodes (\<lambda>n. isOf k st n typeName) (allNodes (graph st)) of
             Inl e \<Rightarrow> (st, Some e)
           | Inr matchingNodes \<Rightarrow>
               (case action of
                  None \<Rightarrow>
                    (onOutput (Line (''ALL '' @ typeName @ '': ''
                                @ numstr st (real (length matchingNodes)) @ '' nodes found'')) st,
                     None)
                | Some a \<Rightarrow> forEachNode (executeActionOnNode ex a) matchingNodes st)))"

definition executeEach ::
  "(stmt \<Rightarrow> state \<Rightarrow> result) \<Rightarrow> string \<Rightarrow> string \<Rightarrow> stmt list \<Rightarrow> state \<Rightarrow> result" where
  "executeEach ex collection variable body st =
     (case getNode (graph st) collection of
        None \<Rightarrow> (st, Some CollectionNotFound)
      | Some collectionNode \<Rightarrow>
          forEachNode
            (\<lambda>child s.
               case execute ex body (ctxSet variable (VNode child) s) of
                 (s1, None) \<Rightarrow> (ctxDelete variable s1, None)
               | (s1, Some e) \<Rightarrow> (s1, Some e))
            (filter (\<lambda>n. collectionNode \<in> set (parents (nodeOf (graph st) n)))
               (allNodes (graph st)))
            st)"

subsection \<open>Interpreter.ts: queries\<close>

definition matchesIsQuery :: "nat \<Rightarrow> state \<Rightarrow> string option \<Rightarrow> string \<Rightarrow> error + bool" where
  "matchesIsQuery k st target n =
     (case target of None \<Rightarrow> Inr True | Some t \<Rightarrow> isOf k st n t)"

definition matchesHasQuery ::
  "nat \<Rightarrow> state \<Rightarrow> string option \<Rightarrow> lit option \<Rightarrow> string \<Rightarrow> error + bool" where
  "matchesHasQuery k st target targetValue n =
     (case target of
        None \<Rightarrow> Inr (properties (nodeOf (graph st) n) \<noteq> [])
      | Some t \<Rightarrow>
          (case getProperty k (graph st) n t of
             None \<Rightarrow> Inl StackOverflow
           | Some VNull \<Rightarrow> Inr False
           | Some propValue \<Rightarrow>
               (case targetValue of
                  None \<Rightarrow> Inr True
                | Some tv \<Rightarrow> Inr (litMatches tv propValue))))"

definition matchesCanQuery :: "nat \<Rightarrow> state \<Rightarrow> string option \<Rightarrow> string \<Rightarrow> error + bool" where
  "matchesCanQuery k st target n =
     (case target of
        None \<Rightarrow>
          (case getProperty k (graph st) n ''_Abilities'' of
             None \<Rightarrow> Inl StackOverflow
           | Some (VSet a) \<Rightarrow> Inr (heapGet (heap st) a \<noteq> [])
           | Some _ \<Rightarrow> Inr False)
      | Some t \<Rightarrow> nodeCan k st n t)"

definition findMatchingNodes ::
  "nat \<Rightarrow> state \<Rightarrow> string \<Rightarrow> string option \<Rightarrow> lit option \<Rightarrow> error + string list" where
  "findMatchingNodes k st relation target targetValue =
     filterNodes
       (\<lambda>n. if relation = ''IS'' then matchesIsQuery k st target n
            else if relation = ''HAS'' then matchesHasQuery k st target targetValue n
            else if relation = ''CAN'' then matchesCanQuery k st target n
            else Inr False)
       (allNodes (graph st))"

text \<open>The test \<open>filterByWhereCondition\<close> applies to the value of the \<open>WHERE\<close>
  expression: the boolean \<open>true\<close> or a number other than 0; a thrown exception is
  caught and the candidate dropped.\<close>

definition whereAccepts :: "error + val \<Rightarrow> bool" where
  "whereAccepts r =
     (case r of
        Inl e \<Rightarrow> False
      | Inr (VBool b) \<Rightarrow> b
      | Inr (VNum x) \<Rightarrow> x \<noteq> 0
      | Inr _ \<Rightarrow> False)"

definition queryVarName :: "queryPattern \<Rightarrow> string" where
  "queryVarName pattern = (case pattern of Variable name \<Rightarrow> name | Wildcard \<Rightarrow> ''_'')"

fun filterByWhereCondition ::
  "nat \<Rightarrow> string \<Rightarrow> expr \<Rightarrow> string list \<Rightarrow> state \<Rightarrow> string list \<times> state" where
  "filterByWhereCondition k varName whereCondition [] st = ([], st)"
| "filterByWhereCondition k varName whereCondition (n # nodes) st =
     (case evaluate k whereCondition (ctxSet varName (VNode n) st) of
        (conditionResult, st1) \<Rightarrow>
          (case filterByWhereCondition k varName whereCondition nodes (ctxDelete varName st1) of
             (rest, st2) \<Rightarrow> ((if whereAccepts conditionResult then [n] else []) @ rest, st2)))"

definition reportLines :: "state \<Rightarrow> string \<Rightarrow> string list \<Rightarrow> outLine list" where
  "reportLines st header matchingNodes =
     Line (header @ numstr st (real (length matchingNodes)) @ '' nodes found'')
     # map (\<lambda>n. Line (''  - '' @ n)) matchingNodes"

definition executeQuery ::
  "nat \<Rightarrow> queryPattern \<Rightarrow> string \<Rightarrow> string option \<Rightarrow> lit option \<Rightarrow> expr option \<Rightarrow> state \<Rightarrow> result" where
  "executeQuery k pattern relation target targetValue whereCondition st =
     (case findMatchingNodes k st relation target targetValue of
        Inl e \<Rightarrow> (st, Some e)
      | Inr found \<Rightarrow>
          (case (case whereCondition of
                   None \<Rightarrow> (found, st)
                 | Some w \<Rightarrow> filterByWhereCondition k (queryVarName pattern) w found st) of
             (matchingNodes, st1) \<Rightarrow>
               (case pattern of
                  Variable varName \<Rightarrow>
                    (case getOrCreateNode varName st1 of
                       (st2, resultNode) \<Rightarrow>
                         (case getOrCreateNode ''QueryResult'' st2 of
                            (st3, queryResultType) \<Rightarrow>
                              (case heapAlloc matchingNodes
                                      (if queryResultType \<in> set (parents (nodeOf (graph st3) resultNode))
                                       then st3 else addParent resultNode queryResultType st3) of
                                 (st4, a) \<Rightarrow>
                                   (foldl (\<lambda>s l. onOutput l s)
                                      (setProperty resultNode ''_Items'' (VItems a) st4)
                                      (reportLines st4 (''Query ?'' @ varName @ '': '') matchingNodes),
                                    None))))
                | Wildcard \<Rightarrow>
                    (foldl (\<lambda>s l. onOutput l s) st1 (reportLines st1 ''Query: '' matchingNodes),
                     None))))"

subsection \<open>Interpreter.ts: DEBUG\<close>

definition startsWithUnderscore :: "string \<Rightarrow> bool" where
  "startsWithUnderscore key = (case key of [] \<Rightarrow> False | c # cs \<Rightarrow> c = CHR ''_'')"

definition formatProp :: "nat \<Rightarrow> state \<Rightarrow> string \<times> val \<Rightarrow> string option" where
  "formatProp k st kv =
     (case snd kv of
        VStr s \<Rightarrow> Some (fst kv @ ''='' @ [CHR 0x22] @ s @ [CHR 0x22])
      | VNode m \<Rightarrow> Some (fst kv @ ''='' @ [CHR 0xE2, CHR 0x86, CHR 0x92] @ m)
      | v \<Rightarrow> (case jsString k st v of None \<Rightarrow> None | Some t \<Rightarrow> Some (fst kv @ ''='' @ t)))"

text \<open>The suffix for the own \<open>_Items\<close>: \<open>items && items.length > 0\<close>, then
  \<open>items.map(n => n.name)\<close>, which a string does not have and which gives
  \<open>undefined\<close>, joined as the empty string, on elements that are no nodes.\<close>

definition itemsSuffix :: "state \<Rightarrow> val option \<Rightarrow> error + string" where
  "itemsSuffix st items =
     (case items of
        Some (VItems a) \<Rightarrow>
          Inr (if heapGet (heap st) a = [] then []
               else '' CONTAINS ['' @ joinWith '', '' (heapGet (heap st) a) @ '']'')
      | Some (VRoles a) \<Rightarrow>
          Inr (if heapGet (heap st) a = [] then []
               else '' CONTAINS ['' @ joinWith '', '' (map (\<lambda>x. []) (heapGet (heap st) a)) @ '']'')
      | Some (VStmts ss) \<Rightarrow>
          Inr (if ss = [] then []
               else '' CONTAINS ['' @ joinWith '', '' (map (\<lambda>x. []) ss) @ '']'')
      | Some (VStr s) \<Rightarrow> if s = [] then Inr [] else Inl TypeError
      | _ \<Rightarrow> Inr [])"

definition abilitiesSuffix :: "state \<Rightarrow> val option \<Rightarrow> string" where
  "abilitiesSuffix st abilities =
     (case abilities of
        Some (VSet a) \<Rightarrow>
          (if heapGet (heap st) a = [] then []
           else '' CAN ['' @ joinWith '', '' (heapGet (heap st) a) @ '']'')
      | _ \<Rightarrow> [])"

definition formatNode :: "nat \<Rightarrow> state \<Rightarrow> string \<Rightarrow> error + string" where
  "formatNode k st n =
     (case mapOption (formatProp k st)
             (filter (\<lambda>kv. \<not> startsWithUnderscore (fst kv)) (properties (nodeOf (graph st) n))) of
        None \<Rightarrow> Inl StackOverflow
      | Some visibleProps \<Rightarrow>
          (case itemsSuffix st (map_of (properties (nodeOf (graph st) n)) ''_Items'') of
             Inl e \<Rightarrow> Inl e
           | Inr items \<Rightarrow>
               Inr (''Node('' @ n @ '')''
                    @ (if parents (nodeOf (graph st) n) \<noteq> []
                       then '' IS '' @ joinWith '', '' (parents (nodeOf (graph st) n)) else [])
                    @ (if visibleProps \<noteq> []
                       then '' { '' @ joinWith '', '' visibleProps @ '' }'' else [])
                    @ items
                    @ abilitiesSuffix st (map_of (properties (nodeOf (graph st) n)) ''_Abilities''))))"

definition dumpGraph :: "nat \<Rightarrow> state \<Rightarrow> result" where
  "dumpGraph k st =
     (if graph st = [] then
        (onOutput (Line ''(empty)'') (onOutput (Line ''--- Graph State ---'') st), None)
      else
        (case forEachNode
                (\<lambda>n s. case formatNode k s n of
                          Inl e \<Rightarrow> (s, Some e)
                        | Inr l \<Rightarrow> (onOutput (Line l) s, None))
                (allNodes (graph st))
                (onOutput (Line ''--- Graph State ---'') st) of
           (st1, Some e) \<Rightarrow> (st1, Some e)
         | (st1, None) \<Rightarrow> (onOutput (Line ''-------------------'') st1, None)))"

definition executeDebug :: "nat \<Rightarrow> debugTarget \<Rightarrow> state \<Rightarrow> result" where
  "executeDebug k target st =
     (case target of
        DebugGraph \<Rightarrow> dumpGraph k st
      | _ \<Rightarrow> (onOutput (DebugNotImplemented target) st, None))"

subsection \<open>Interpreter.ts: executeStatement and the entry point\<close>

text \<open>One unit of depth is spent on every statement that is entered, so that a
  relation whose body invokes itself ends in \<open>StackOverflow\<close>.\<close>

fun executeStatement :: "nat \<Rightarrow> stmt \<Rightarrow> state \<Rightarrow> result" where
  "executeStatement 0 s st = (st, Some StackOverflow)"
| "executeStatement (Suc k) (Relation subj rel args) st =
     executeRelation (executeStatement k) k subj rel args st"
| "executeStatement (Suc k) (HasExpression subj property e) st =
     executeHasExpression k subj property e st"
| "executeStatement (Suc k) (RoleDefinition subj roleName) st =
     executeRoleDefinition k subj roleName st"
| "executeStatement (Suc k) (DoBlock subj body) st = executeDoBlock subj body st"
| "executeStatement (Suc k) (Can subj ability) st = executeCan k subj ability st"
| "executeStatement (Suc k) (Loses subj target type) st = executeLoses k subj target type st"
| "executeStatement (Suc k) (Debug target) st = executeDebug k target st"
| "executeStatement (Suc k) (When condition body) st =
     executeWhen (executeStatement k) k condition body st"
| "executeStatement (Suc k) (WhenExpression w) st =
     executeWhenExpression (executeStatement k) k w st"
| "executeStatement (Suc k) (All typeName queryVariable action) st =
     executeAll (executeStatement k) k typeName queryVariable action st"
| "executeStatement (Suc k) (Each collection variable body) st =
     executeEach (executeStatement k) collection variable body st"
| "executeStatement (Suc k) (Query pattern relation target targetValue whereCondition) st =
     executeQuery k pattern relation target targetValue whereCondition st"
| "executeStatement (Suc k) (ExpressionPrint e) st = executeExpressionPrint k e st"
| "executeStatement (Suc k) (ExpressionHas e property literalValue valueExpression) st =
     executeExpressionHas k e property literalValue valueExpression st"
| "executeStatement (Suc k) (Chance percentExpr body elseBody) st =
     executeChance (executeStatement k) k percentExpr body elseBody st"

text \<open>\<open>Interpreter.execute\<close> with depth budget \<open>k\<close>.\<close>

definition run :: "nat \<Rightarrow> stmt list \<Rightarrow> state \<Rightarrow> result" where
  "run k statements st = execute (executeStatement k) statements st"

subsection \<open>Notions used to state the properties\<close>








text \<open>The node a statement's subject or object name stands for: the node the context
  binds the name to, else the graph's node of that name.\<close>

definition resolvedName :: "state \<Rightarrow> string \<Rightarrow> string" where
  "resolvedName st name = snd (resolveNode name st)"

text \<open>A name is bound when the context maps it to a node or the graph has a node of
  that name.\<close>

definition nameBound :: "state \<Rightarrow> string \<Rightarrow> bool" where
  "nameBound st name =
     ((\<exists>n. map_of (ctx st) name = Some (VNode n)) \<or> hasNode (graph st) name)"

text \<open>The loop of \<open>filterByWhereCondition\<close> evaluates the \<open>WHERE\<close> expression once for
  each candidate, in order, and each evaluation may draw from \<open>Math.random()\<close>.
  \<open>wherePosition\<close> is the position in the random sequence after the candidates
  \<open>nodes\<close>, the loop started at position \<open>i\<close> in the state \<open>st\<close>; \<open>whereValue\<close> is what
  the expression yields for the \<open>j\<close>-th candidate: its value, or the exception it
  throws, in the state of the query with the variable bound to the candidate, at the
  position the loop has reached after the candidates before it.\<close>

fun wherePosition :: "nat \<Rightarrow> state \<Rightarrow> string \<Rightarrow> expr \<Rightarrow> string list \<Rightarrow> nat \<Rightarrow> nat" where
  "wherePosition k st varName whereCondition [] i = i"
| "wherePosition k st varName whereCondition (n # nodes) i =
     wherePosition k st varName whereCondition nodes
       (snd (evaluateExpression k (ctxSet varName (VNode n) st) whereCondition i))"

definition whereValue ::
  "nat \<Rightarrow> state \<Rightarrow> string \<Rightarrow> expr \<Rightarrow> string list \<Rightarrow> nat \<Rightarrow> error + val" where
  "whereValue k st varName whereCondition nodes j =
     fst (evaluateExpression k (ctxSet varName (VNode (nodes ! j)) st) whereCondition
            (wherePosition k st varName whereCondition (take j nodes) (rand_ix st)))"

text \<open>Two states that differ at most in the output, in the position in the random
  sequence and in what the context holds under \<open>v\<close>.\<close>

definition agreeOff :: "string \<Rightarrow> state \<Rightarrow> state \<Rightarrow> bool" where
  "agreeOff v st' st =
     (graph st' = graph st \<and> heap st' = heap st \<and> numstr st' = numstr st
      \<and> whenSubject st' = whenSubject st \<and> rand st' = rand st
      \<and> (\<forall>x. x \<noteq> v \<longrightarrow> map_of (ctx st') x = map_of (ctx st) x))"

section \<open>Properties\<close>

subsection \<open>The legacy WHEN on a subject that is not in the graph\<close>

text \<open>
  Claim C10. When the condition of a legacy \<open>WhenStatement\<close> is a relation statement
  whose subject names no node of the graph, \<open>evaluateCondition\<close> is false, and
  \<open>executeWhen\<close> neither runs the body nor raises nor changes the state: the subject
  is looked up with \<open>getNode\<close> and is not created.
\<close>

theorem legacy_when_unknown_subject:
  assumes "getNode (graph st) subj = None"
  shows "evaluateCondition k st (Relation subj rel args) = Inr False
       \<and> executeStatement (Suc k) (When (Relation subj rel args) body) st = (st, None)
       \<and> run (Suc k) [When (Relation subj rel args) body] st = (st, None)"
  using assms by (simp add: evaluateCondition_def executeWhen_def run_def)

theorem legacy_when_unknown_subject_witness:
  "getNode (graph (newInterpreter (\<lambda>i. 1 / 2) (\<lambda>x. ''0''))) ''Ghost'' = None
   \<and> run (Suc 1) [When (Relation ''Ghost'' ''HAS'' [LStr ''HP''])
                [Relation ''Ghost'' ''PRINT'' []]] (newInterpreter (\<lambda>i. 1 / 2) (\<lambda>x. ''0''))
     = (newInterpreter (\<lambda>i. 1 / 2) (\<lambda>x. ''0''), None)"
proof -
  have h: "getNode (graph (newInterpreter (\<lambda>i. 1 / 2) (\<lambda>x. ''0''))) ''Ghost'' = None"
    by (simp add: newInterpreter_def getNode_def hasNode_def)
  from legacy_when_unknown_subject [OF h, of 1 "''HAS''" "[LStr ''HP'']"
      "[Relation ''Ghost'' ''PRINT'' []]"] h
  show ?thesis by simp
qed

subsection \<open>CHANCE 0 and CHANCE 100\<close>

text \<open>
  Claim C8. Whatever \<open>Math.random()\<close> returns in \<open>[0, 1)\<close>, that is for every roll
  \<open>floor(random * 100)\<close> in \<open>[0, 99]\<close>, \<open>CHANCE 0 DO X END\<close> does not execute \<open>X\<close>
  (it executes the else body when there is one) and \<open>CHANCE 100 DO X END\<close> executes
  \<open>X\<close>.
\<close>

theorem chance_zero_and_hundred:
  assumes "0 \<le> rand st (rand_ix st)" and "rand st (rand_ix st) < 1"
  shows "executeStatement (Suc k) (Chance (ENumber 0) body elseBody) st
         = (case elseBody of
              Some b \<Rightarrow> execute (executeStatement k) b (st\<lparr>rand_ix := Suc (rand_ix st)\<rparr>)
            | None \<Rightarrow> (st\<lparr>rand_ix := Suc (rand_ix st)\<rparr>, None))
       \<and> executeStatement (Suc k) (Chance (ENumber 100) body elseBody) st
         = execute (executeStatement k) body (st\<lparr>rand_ix := Suc (rand_ix st)\<rparr>)"
proof -
  let ?u = "rand st (rand_ix st)"
  have lo: "0 \<le> \<lfloor>?u * 100\<rfloor>" using assms(1) by simp
  have hi: "\<lfloor>?u * 100\<rfloor> < 100" using assms(2) by (simp add: floor_less_iff)
  have a: "\<not> real_of_int \<lfloor>?u * 100\<rfloor> < 0" using lo by linarith
  have b: "real_of_int \<lfloor>?u * 100\<rfloor> < 100" using hi by linarith
  show ?thesis
    using a b by (simp add: executeChance_def evaluate_def toNumber_def random_def)
qed

theorem chance_zero_and_hundred_witness:
  "(0::real) \<le> 1 / 2 \<and> (1::real) / 2 < 1
   \<and> out (fst (executeStatement (Suc 2)
        (Chance (ENumber 0) [Relation ''A'' ''PRINT'' []] (Some [Relation ''B'' ''PRINT'' []]))
        (newInterpreter (\<lambda>i. 1 / 2) (\<lambda>x. ''0'')))) = [Line ''B'']
   \<and> out (fst (executeStatement (Suc 2)
        (Chance (ENumber 100) [Relation ''A'' ''PRINT'' []] (Some [Relation ''B'' ''PRINT'' []]))
        (newInterpreter (\<lambda>i. 1 / 2) (\<lambda>x. ''0'')))) = [Line ''A'']"
proof -
  have h1: "0 \<le> rand (newInterpreter (\<lambda>i. 1 / 2) (\<lambda>x. ''0''))
                    (rand_ix (newInterpreter (\<lambda>i. 1 / 2) (\<lambda>x. ''0'')))"
    by (simp add: newInterpreter_def)
  have h2: "rand (newInterpreter (\<lambda>i. 1 / 2) (\<lambda>x. ''0''))
                 (rand_ix (newInterpreter (\<lambda>i. 1 / 2) (\<lambda>x. ''0''))) < 1"
    by (simp add: newInterpreter_def)
  show ?thesis
    using chance_zero_and_hundred [OF h1 h2, of 2 "[Relation ''A'' ''PRINT'' []]"
        "Some [Relation ''B'' ''PRINT'' []]"]
    by (simp add: newInterpreter_def executeRelation_def resolveNode_def getOrCreateNode_def
        hasNode_def toUpperCase_def upperChar_def executePrint_def nodeOf_def emptyNode_def
        onOutput_def numeral_2_eq_2)
qed

subsection \<open>RANDOM\<close>

lemma floor_random_bounds:
  fixes u :: real and n :: int
  assumes "0 \<le> u" "u < 1" "1 \<le> n"
  shows "0 \<le> \<lfloor>u * real_of_int n\<rfloor> \<and> \<lfloor>u * real_of_int n\<rfloor> \<le> n - 1"
proof -
  have n0: "0 < real_of_int n" using assms(3) by simp
  have "0 \<le> u * real_of_int n" using assms(1) n0 by simp
  then have lo: "0 \<le> \<lfloor>u * real_of_int n\<rfloor>" by simp
  have "u * real_of_int n < 1 * real_of_int n"
    using assms(2) n0 by (rule mult_strict_right_mono)
  then have "u * real_of_int n < real_of_int n" by simp
  then have "\<lfloor>u * real_of_int n\<rfloor> < n" by (simp add: floor_less_iff)
  with lo show ?thesis by simp
qed

text \<open>
  Claim C7, as stated, fails when the endpoints are reversed: \<open>RANDOM 5 3\<close> with the
  draw \<open>1/2\<close> computes \<open>floor(1/2 * (3 - 5 + 1)) + 5 = 4\<close>, which is not in
  \<open>[floor 5, floor 3]\<close>.
\<close>

theorem random_reversed_counterexample:
  "evaluateExpression 1 (newInterpreter (\<lambda>i. 1 / 2) (\<lambda>x. ''0''))
      (ERandom (ENumber 5) (ENumber 3)) 0 = (Inr (VNum 4), Suc 0)
   \<and> (0::real) \<le> 1 / 2 \<and> (1::real) / 2 < 1
   \<and> \<not> (\<lfloor>5::real\<rfloor> \<le> (4::int) \<and> (4::int) \<le> \<lfloor>3::real\<rfloor>)"
  by (simp add: toNumber_def randomInteger_def newInterpreter_def)

text \<open>
  Claim C7, amended. When both endpoints of \<open>RANDOM a b\<close> evaluate to numbers with
  \<open>floor a \<le> floor b\<close>, then for every draw of \<open>Math.random()\<close> in \<open>[0, 1)\<close> the
  result is an integer \<open>r\<close> with \<open>floor a \<le> r \<le> floor b\<close>; in particular it is
  \<open>floor a\<close> when \<open>a = b\<close>.
\<close>

theorem random_within_floors:
  assumes "evaluateExpression k st emin i = (Inr (VNum a), i1)"
    and "evaluateExpression k st emax i1 = (Inr (VNum b), i2)"
    and "0 \<le> rand st i2" and "rand st i2 < 1"
    and "\<lfloor>a\<rfloor> \<le> \<lfloor>b\<rfloor>"
  shows "\<exists>r::int. evaluateExpression k st (ERandom emin emax) i
                    = (Inr (VNum (real_of_int r)), Suc i2)
              \<and> \<lfloor>a\<rfloor> \<le> r \<and> r \<le> \<lfloor>b\<rfloor> \<and> (a = b \<longrightarrow> r = \<lfloor>a\<rfloor>)"
proof -
  let ?r = "randomInteger (rand st i2) a b"
  have ev: "evaluateExpression k st (ERandom emin emax) i = (Inr (VNum (real_of_int ?r)), Suc i2)"
    using assms(1,2) by (simp add: toNumber_def)
  have n1: "1 \<le> \<lfloor>b\<rfloor> - \<lfloor>a\<rfloor> + 1" using assms(5) by simp
  from floor_random_bounds [OF assms(3) assms(4) n1]
  have "\<lfloor>a\<rfloor> \<le> ?r \<and> ?r \<le> \<lfloor>b\<rfloor>"
    by (simp add: randomInteger_def Let_def)
  then have "\<lfloor>a\<rfloor> \<le> ?r \<and> ?r \<le> \<lfloor>b\<rfloor> \<and> (a = b \<longrightarrow> ?r = \<lfloor>a\<rfloor>)" by auto
  with ev show ?thesis by blast
qed

theorem random_within_floors_witness:
  "evaluateExpression 1 (newInterpreter (\<lambda>i. 1 / 2) (\<lambda>x. ''0'')) (ENumber 1) 0 = (Inr (VNum 1), 0)
   \<and> evaluateExpression 1 (newInterpreter (\<lambda>i. 1 / 2) (\<lambda>x. ''0'')) (ENumber (13 / 2)) 0
       = (Inr (VNum (13 / 2)), 0)
   \<and> \<lfloor>1::real\<rfloor> \<le> \<lfloor>13 / 2 :: real\<rfloor>
   \<and> (\<exists>r::int. evaluateExpression 1 (newInterpreter (\<lambda>i. 1 / 2) (\<lambda>x. ''0''))
                  (ERandom (ENumber 1) (ENumber (13 / 2))) 0 = (Inr (VNum (real_of_int r)), Suc 0)
          \<and> 1 \<le> r \<and> r \<le> 6)"
proof -
  let ?st = "newInterpreter (\<lambda>i. 1 / 2) (\<lambda>x. ''0'')"
  have e1: "evaluateExpression 1 ?st (ENumber 1) 0 = (Inr (VNum 1), 0)" by simp
  have e2: "evaluateExpression 1 ?st (ENumber (13 / 2)) 0 = (Inr (VNum (13 / 2)), 0)" by simp
  have u1: "0 \<le> rand ?st 0" by (simp add: newInterpreter_def)
  have u2: "rand ?st 0 < 1" by (simp add: newInterpreter_def)
  have fl: "\<lfloor>1::real\<rfloor> \<le> \<lfloor>13 / 2 :: real\<rfloor>" by simp
  from random_within_floors [OF e1 e2 u1 u2 fl] e1 e2 fl
  show ?thesis by simp
qed

subsection \<open>Basic facts about the graph and the resolution of names\<close>

lemma toUpperCase_IS: "toUpperCase ''IS'' = ''IS''"
  by (simp add: toUpperCase_def upperChar_def)

lemma toUpperCase_HAS: "toUpperCase ''HAS'' = ''HAS''"
  by (simp add: toUpperCase_def upperChar_def)

lemma map_of_updNode:
  "map_of (graph (updNode n f st)) x
   = (if x = n then map_option f (map_of (graph st) x) else map_of (graph st) x)"
proof -
  have "map_of (map (\<lambda>(m, nd). if m = n then (m, f nd) else (m, nd)) g) x
        = (if x = n then map_option f (map_of g x) else map_of g x)" for g
    by (induction g) auto
  then show ?thesis by (simp add: updNode_def)
qed

lemma hasNode_updNode: "hasNode (graph (updNode n f st)) x = hasNode (graph st) x"
  by (simp add: hasNode_def map_of_updNode)

lemma nodeOf_updNode:
  "nodeOf (graph (updNode n f st)) x
   = (if x = n \<and> hasNode (graph st) n then f (nodeOf (graph st) n) else nodeOf (graph st) x)"
  by (auto simp: nodeOf_def hasNode_def map_of_updNode split: option.splits)

lemma updNode_fields:
  "heap (updNode n f st) = heap st" "ctx (updNode n f st) = ctx st"
  "whenSubject (updNode n f st) = whenSubject st" "out (updNode n f st) = out st"
  "rand (updNode n f st) = rand st" "rand_ix (updNode n f st) = rand_ix st"
  "numstr (updNode n f st) = numstr st"
  by (simp_all add: updNode_def)

lemma getOrCreateNode_snd: "snd (getOrCreateNode n st) = n"
  by (simp add: getOrCreateNode_def)

lemma getOrCreateNode_fields:
  "heap (fst (getOrCreateNode n st)) = heap st" "ctx (fst (getOrCreateNode n st)) = ctx st"
  "whenSubject (fst (getOrCreateNode n st)) = whenSubject st"
  "out (fst (getOrCreateNode n st)) = out st"
  "rand (fst (getOrCreateNode n st)) = rand st"
  "rand_ix (fst (getOrCreateNode n st)) = rand_ix st"
  "numstr (fst (getOrCreateNode n st)) = numstr st"
  by (simp_all add: getOrCreateNode_def)

lemma hasNode_getOrCreateNode:
  "hasNode (graph (fst (getOrCreateNode n st))) x = (x = n \<or> hasNode (graph st) x)"
  by (auto simp: getOrCreateNode_def hasNode_def map_add_def split: option.splits if_splits)

lemma nodeOf_getOrCreateNode: "nodeOf (graph (fst (getOrCreateNode n st))) x = nodeOf (graph st) x"
  by (auto simp: getOrCreateNode_def hasNode_def nodeOf_def map_add_def
      split: option.splits if_splits)

lemma resolveNode_snd: "snd (resolveNode name st) = resolvedName st name"
  by (simp add: resolvedName_def)

lemma resolveNode_fields:
  "heap (fst (resolveNode name st)) = heap st" "ctx (fst (resolveNode name st)) = ctx st"
  "whenSubject (fst (resolveNode name st)) = whenSubject st"
  "out (fst (resolveNode name st)) = out st"
  "rand (fst (resolveNode name st)) = rand st"
  "rand_ix (fst (resolveNode name st)) = rand_ix st"
  "numstr (fst (resolveNode name st)) = numstr st"
  by (simp_all add: resolveNode_def getOrCreateNode_fields split: option.splits val.splits)

lemma nodeOf_resolveNode: "nodeOf (graph (fst (resolveNode name st))) x = nodeOf (graph st) x"
  by (simp add: resolveNode_def nodeOf_getOrCreateNode split: option.splits val.splits)

lemma hasNode_resolveNode:
  "hasNode (graph st) x \<Longrightarrow> hasNode (graph (fst (resolveNode name st))) x"
  by (simp add: resolveNode_def hasNode_getOrCreateNode split: option.splits val.splits)

lemma resolvedName_ctx: "ctx st' = ctx st \<Longrightarrow> resolvedName st' name = resolvedName st name"
  by (simp add: resolvedName_def resolveNode_def getOrCreateNode_snd
      split: option.splits val.splits)

lemma resolvedName_resolveNode: "resolvedName (fst (resolveNode a st)) name = resolvedName st name"
  by (rule resolvedName_ctx) (simp add: resolveNode_fields)

lemma resolvedName_updNode: "resolvedName (updNode n f st) name = resolvedName st name"
  by (rule resolvedName_ctx) (simp add: updNode_fields)

lemma nameBound_resolveNode: "nameBound (fst (resolveNode name st)) name"
  by (auto simp: nameBound_def resolveNode_def hasNode_getOrCreateNode
      split: option.splits val.splits)

lemma resolveNodeOrNull_bound:
  "nameBound st name \<Longrightarrow> resolveNodeOrNull name st = Some (resolvedName st name)"
  by (auto simp: nameBound_def resolveNodeOrNull_def resolvedName_def resolveNode_def getNode_def
      getOrCreateNode_def split: option.splits val.splits)

lemma nameBound_updNode: "nameBound (updNode n f st) name = nameBound st name"
  by (simp add: nameBound_def hasNode_updNode updNode_fields)

lemma nameBound_resolveNode_other:
  "nameBound st x \<Longrightarrow> nameBound (fst (resolveNode name st)) x"
  by (auto simp: nameBound_def resolveNode_fields hasNode_resolveNode)

lemma resolvedName_addParent: "resolvedName (addParent n p st) name = resolvedName st name"
  by (simp add: addParent_def resolvedName_updNode)

lemma nameBound_addParent: "nameBound (addParent n p st) name = nameBound st name"
  by (simp add: addParent_def nameBound_updNode)

subsection \<open>IS followed by LOSES IS\<close>

lemma executeIs_run:
  "executeStatement (Suc k) (Relation S ''IS'' [LStr T]) st
   = (addParent (resolvedName st S) (resolvedName st T)
        (fst (resolveNode T (fst (resolveNode S st)))), None)"
  by (simp add: executeRelation_def executeIs_def toUpperCase_IS litString_def
      split_beta resolveNode_snd resolvedName_resolveNode)

lemma executeLosesIs_run:
  "nameBound st T \<Longrightarrow>
   executeStatement (Suc k) (Loses S T LosesIs) st
   = (removeParent (resolvedName st S) (resolvedName st T) (fst (resolveNode S st)), None)"
  by (simp add: executeLoses_def split_beta resolveNode_snd resolvedName_resolveNode
      resolveNodeOrNull_bound nameBound_resolveNode_other)

text \<open>
  Claim C3, amended. Let \<open>s\<close> and \<open>t\<close> be the nodes the names \<open>S\<close> and \<open>T\<close> stand
  for. If \<open>t\<close> is not among the parents of \<open>s\<close>, then \<open>S IS T\<close> followed by
  \<open>S LOSES IS T\<close> raises nothing and leaves the parents list of \<open>s\<close> as it was before
  the \<open>IS T\<close>.
\<close>

theorem is_then_loses_is_restores:
  assumes "resolvedName st T \<notin> set (parents (nodeOf (graph st) (resolvedName st S)))"
  shows "snd (run (Suc k) [Relation S ''IS'' [LStr T], Loses S T LosesIs] st) = None
       \<and> parents (nodeOf (graph (fst (run (Suc k)
             [Relation S ''IS'' [LStr T], Loses S T LosesIs] st))) (resolvedName st S))
         = parents (nodeOf (graph st) (resolvedName st S))"
proof -
  let ?s = "resolvedName st S" and ?t = "resolvedName st T"
  let ?st2 = "fst (resolveNode T (fst (resolveNode S st)))"
  let ?st3 = "addParent ?s ?t ?st2"
  have b: "nameBound ?st3 T"
    by (simp add: nameBound_addParent nameBound_resolveNode)
  have r: "run (Suc k) [Relation S ''IS'' [LStr T], Loses S T LosesIs] st
           = (removeParent ?s ?t (fst (resolveNode S ?st3)), None)"
    unfolding run_def
    by (simp add: executeIs_run executeLosesIs_run [OF b] resolvedName_addParent
        resolvedName_resolveNode del: executeStatement.simps)
  have h: "hasNode (graph ?st2) ?s \<Longrightarrow> hasNode (graph (fst (resolveNode S ?st3))) ?s"
    by (simp add: hasNode_resolveNode addParent_def hasNode_updNode)
  have "parents (nodeOf (graph (removeParent ?s ?t (fst (resolveNode S ?st3)))) ?s)
        = parents (nodeOf (graph st) ?s)"
    using assms h
    by (auto simp: removeParent_def addParent_def nodeOf_updNode nodeOf_resolveNode
        hasNode_updNode addParentList_def remove1_append remove1_idem)
  with r show ?thesis by simp
qed



theorem is_then_loses_is_restores_witness:
  "resolvedName (fst (run (Suc 0) [Relation ''S'' ''IS'' [LStr ''U'']]
                   (newInterpreter (\<lambda>i. 1 / 2) (\<lambda>x. ''0'')))) ''T''
     \<notin> set (parents (nodeOf (graph (fst (run (Suc 0) [Relation ''S'' ''IS'' [LStr ''U'']]
                   (newInterpreter (\<lambda>i. 1 / 2) (\<lambda>x. ''0''))))) ''S''))
   \<and> parents (nodeOf (graph (fst (run (Suc 0)
          [Relation ''S'' ''IS'' [LStr ''T''], Loses ''S'' ''T'' LosesIs]
          (fst (run (Suc 0) [Relation ''S'' ''IS'' [LStr ''U'']]
                   (newInterpreter (\<lambda>i. 1 / 2) (\<lambda>x. ''0''))))))) ''S'')
     = [''U'']"
proof -
  let ?c = "fst (run (Suc 0) [Relation ''S'' ''IS'' [LStr ''U'']]
                   (newInterpreter (\<lambda>i. 1 / 2) (\<lambda>x. ''0'')))"
  have rs: "resolvedName ?c ''S'' = ''S''" by code_simp
  have ps: "parents (nodeOf (graph ?c) ''S'') = [''U'']" by code_simp
  have h: "resolvedName ?c ''T'' \<notin> set (parents (nodeOf (graph ?c) (resolvedName ?c ''S'')))"
    by code_simp
  from is_then_loses_is_restores [OF h, of 0] h rs ps
  show ?thesis by simp
qed

text \<open>
  Claim C3, as stated, fails for a parents list that already contains \<open>T\<close>: the
  \<open>IS T\<close> adds nothing and the \<open>LOSES IS T\<close> removes the entry, so \<open>[T]\<close> becomes
  \<open>[]\<close>.
\<close>

theorem is_then_loses_is_counterexample:
  "parents (nodeOf (graph (fst (run (Suc 0) [Relation ''S'' ''IS'' [LStr ''T'']]
                   (newInterpreter (\<lambda>i. 1 / 2) (\<lambda>x. ''0''))))) ''S'') = [''T'']
   \<and> parents (nodeOf (graph (fst (run (Suc 0)
          [Relation ''S'' ''IS'' [LStr ''T''], Loses ''S'' ''T'' LosesIs]
          (fst (run (Suc 0) [Relation ''S'' ''IS'' [LStr ''T'']]
                   (newInterpreter (\<lambda>i. 1 / 2) (\<lambda>x. ''0''))))))) ''S'')
     = []"
  by code_simp

subsection \<open>HAS without a value and the legacy WHEN\<close>

lemma executeHas_run:
  assumes "\<forall>n. map_of (ctx st) X \<noteq> Some (VNode n)"
  shows "executeStatement (Suc j) (Relation X ''HAS'' (LStr P # rest)) st
         = (setProperty X P
              (promote (fst (getOrCreateNode X st)) (case rest of [] \<Rightarrow> None | v # _ \<Rightarrow> Some v))
              (fst (getOrCreateNode X st)), None)"
proof -
  have "resolveNode X st = getOrCreateNode X st"
    using assms by (auto simp: resolveNode_def split: option.splits val.splits)
  then show ?thesis
    by (simp add: executeRelation_def executeHas_def toUpperCase_HAS toUpperCase_def upperChar_def
        litString_def split_beta getOrCreateNode_snd)
qed

lemma own_after_setProperty:
  "hasNode (graph st) n \<Longrightarrow> map_of (properties (nodeOf (graph (setProperty n p v st)) n)) p = Some v"
  by (simp add: setProperty_def nodeOf_updNode update_conv')

lemma hasNode_setProperty: "hasNode (graph (setProperty n p v st)) x = hasNode (graph st) x"
  by (simp add: setProperty_def hasNode_updNode)

lemma promote_some_not_null: "promote st (Some v) \<noteq> VNull"
  by (simp add: promote_def split: lit.splits option.splits)

text \<open>
  Claim C6, amended. For a name \<open>X\<close> that the context does not bind to a node: after
  \<open>X HAS P\<close> with no value the property holds \<open>null\<close>, the legacy condition \<open>X HAS P\<close>
  (a test that the looked-up value is not \<open>null\<close>) is false, and
  \<open>X HAS P WHEN DO body END\<close> changes nothing and does not execute its body; after
  \<open>X HAS P v\<close> with a literal value the same statement executes its body.
\<close>

theorem has_without_value_then_when:
  assumes "\<forall>n. map_of (ctx st) X \<noteq> Some (VNode n)"
  shows "evaluateCondition (Suc k)
           (fst (executeStatement (Suc j) (Relation X ''HAS'' [LStr P]) st))
           (Relation X ''HAS'' [LStr P]) = Inr False
       \<and> executeStatement (Suc (Suc k)) (When (Relation X ''HAS'' [LStr P]) body)
           (fst (executeStatement (Suc j) (Relation X ''HAS'' [LStr P]) st))
         = (fst (executeStatement (Suc j) (Relation X ''HAS'' [LStr P]) st), None)
       \<and> executeStatement (Suc (Suc k)) (When (Relation X ''HAS'' [LStr P]) body)
           (fst (executeStatement (Suc j) (Relation X ''HAS'' [LStr P, v]) st))
         = execute (executeStatement (Suc k)) body
             (fst (executeStatement (Suc j) (Relation X ''HAS'' [LStr P, v]) st))"
proof -
  let ?g = "fst (getOrCreateNode X st)"
  have hn: "hasNode (graph ?g) X" by (simp add: hasNode_getOrCreateNode)
  have cond: "evaluateCondition (Suc k) (setProperty X P w ?g) (Relation X ''HAS'' [LStr P])
              = Inr (w \<noteq> VNull)" for w
    using hn
    by (simp add: evaluateCondition_def getNode_def hasNode_setProperty toUpperCase_HAS
        evaluateHasCondition_def litString_def own_after_setProperty)
  have e1: "fst (executeStatement (Suc j) (Relation X ''HAS'' [LStr P]) st)
            = setProperty X P VNull ?g"
    by (simp add: executeHas_run [OF assms] promote_def del: executeStatement.simps)
  have e2: "fst (executeStatement (Suc j) (Relation X ''HAS'' [LStr P, v]) st)
            = setProperty X P (promote ?g (Some v)) ?g"
    by (simp add: executeHas_run [OF assms] del: executeStatement.simps)
  show ?thesis
    unfolding e1 e2
    by (simp add: executeWhen_def cond promote_some_not_null)
qed

theorem has_without_value_then_when_witness:
  "(\<forall>n. map_of (ctx (newInterpreter (\<lambda>i. 1 / 2) (\<lambda>x. ''0''))) ''X'' \<noteq> Some (VNode n))
   \<and> out (fst (executeStatement (Suc (Suc 1))
         (When (Relation ''X'' ''HAS'' [LStr ''P'']) [Relation ''X'' ''PRINT'' []])
         (fst (executeStatement (Suc 0) (Relation ''X'' ''HAS'' [LStr ''P''])
                (newInterpreter (\<lambda>i. 1 / 2) (\<lambda>x. ''0'')))))) = []
   \<and> out (fst (executeStatement (Suc (Suc 1))
         (When (Relation ''X'' ''HAS'' [LStr ''P'']) [Relation ''X'' ''PRINT'' []])
         (fst (executeStatement (Suc 0) (Relation ''X'' ''HAS'' [LStr ''P'', LNum 7])
                (newInterpreter (\<lambda>i. 1 / 2) (\<lambda>x. ''0'')))))) = [Line ''X'']"
proof -
  let ?st = "newInterpreter (\<lambda>i. 1 / 2) (\<lambda>x. ''0'')"
  have h: "\<forall>n. map_of (ctx ?st) ''X'' \<noteq> Some (VNode n)"
    by (simp add: newInterpreter_def)
  have o1: "out (fst (executeStatement (Suc 0) (Relation ''X'' ''HAS'' [LStr ''P'']) ?st)) = []"
    by code_simp
  have o2: "out (fst (execute (executeStatement (Suc 1)) [Relation ''X'' ''PRINT'' []]
              (fst (executeStatement (Suc 0) (Relation ''X'' ''HAS'' [LStr ''P'', LNum 7]) ?st))))
            = [Line ''X'']"
    by code_simp
  from has_without_value_then_when [OF h, of 1 0 "''P''" "[Relation ''X'' ''PRINT'' []]" "LNum 7"]
    h o1 o2
  show ?thesis by simp
qed

text \<open>
  Claim C6, as stated, fails on a new interpreter: after \<open>X HAS P\<close> the condition
  \<open>X HAS P\<close> is false and \<open>X HAS P WHEN DO X PRINT END\<close> prints nothing, although
  \<open>X PRINT\<close> alone prints \<open>X\<close>.
\<close>

theorem has_without_value_counterexample:
  "evaluateCondition (Suc 0)
     (fst (run (Suc 0) [Relation ''X'' ''HAS'' [LStr ''P'']]
            (newInterpreter (\<lambda>i. 1 / 2) (\<lambda>x. ''0''))))
     (Relation ''X'' ''HAS'' [LStr ''P'']) = Inr False
   \<and> out (fst (run (Suc (Suc (Suc 0)))
        [Relation ''X'' ''HAS'' [LStr ''P''],
         When (Relation ''X'' ''HAS'' [LStr ''P'']) [Relation ''X'' ''PRINT'' []]]
        (newInterpreter (\<lambda>i. 1 / 2) (\<lambda>x. ''0'')))) = []
   \<and> out (fst (run (Suc (Suc (Suc 0)))
        [Relation ''X'' ''HAS'' [LStr ''P''], Relation ''X'' ''PRINT'' []]
        (newInterpreter (\<lambda>i. 1 / 2) (\<lambda>x. ''0'')))) = [Line ''X'']"
  by code_simp

subsection \<open>Termination of the ancestry test\<close>

lemma anyParentIs_determined:
  assumes "\<forall>p \<in> set ps. f p = Some (h p)"
  shows "anyParentIs f ps = Some (\<exists>p \<in> set ps. h p)"
  using assms by (induction ps) (auto split: bool.splits)

text \<open>
  Claim C1, amended. On a graph whose \<open>IS\<close> edges have no cycle (every parent ranks
  strictly below its child for some ranking of the nodes), the ancestry test
  \<open>n.is(t)\<close> returns a boolean for every node \<open>n\<close> and every type name \<open>t\<close>: from
  some depth on the result no longer depends on the depth budget.
\<close>

theorem is_terminates_without_cycle:
  assumes "\<forall>n p. p \<in> set (parents (nodeOf g n)) \<longrightarrow> rank p < (rank n :: nat)"
  shows "\<exists>b. \<forall>k. rank n < k \<longrightarrow> SongNode_is k g n t = Some b"
proof (induction "rank n" arbitrary: n rule: less_induct)
  case less
  let ?ps = "parents (nodeOf g n)"
  have "\<forall>p \<in> set ?ps. \<exists>b. \<forall>k. rank p < k \<longrightarrow> SongNode_is k g p t = Some b"
    using less assms by blast
  then obtain h where h: "\<forall>p \<in> set ?ps. \<forall>k. rank p < k \<longrightarrow> SongNode_is k g p t = Some (h p)"
    by metis
  have "SongNode_is k g n t = Some (n = t \<or> (\<exists>p \<in> set ?ps. h p))" if k: "rank n < k" for k
  proof -
    from k obtain k' where k': "k = Suc k'" by (cases k) auto
    have "\<forall>p \<in> set ?ps. SongNode_is k' g p t = Some (h p)"
    proof
      fix p assume p: "p \<in> set ?ps"
      then have "rank p < rank n" using assms by blast
      then have "rank p < k'" using k k' by simp
      with h p show "SongNode_is k' g p t = Some (h p)" by blast
    qed
    then have "anyParentIs (\<lambda>p. SongNode_is k' g p t) ?ps = Some (\<exists>p \<in> set ?ps. h p)"
      by (rule anyParentIs_determined)
    then show ?thesis by (simp add: k')
  qed
  then show ?case by blast
qed

theorem is_terminates_without_cycle_witness:
  "\<not> (\<exists>n p. p \<in> set (parents (nodeOf
        [(''X'', \<lparr>parents = [''Y''], properties = []\<rparr>),
         (''Y'', \<lparr>parents = [''Z''], properties = []\<rparr>),
         (''Z'', \<lparr>parents = [], properties = []\<rparr>)] n))
      \<and> \<not> (if p = ''X'' then 2 else if p = ''Y'' then 1 else (0::nat))
          < (if n = ''X'' then 2 else if n = ''Y'' then 1 else 0))
   \<and> (\<exists>b. \<forall>k. 2 < k \<longrightarrow> SongNode_is k
        [(''X'', \<lparr>parents = [''Y''], properties = []\<rparr>),
         (''Y'', \<lparr>parents = [''Z''], properties = []\<rparr>),
         (''Z'', \<lparr>parents = [], properties = []\<rparr>)] ''X'' ''Z'' = Some b)"
proof -
  let ?g = "[(''X'', \<lparr>parents = [''Y''], properties = []\<rparr>),
         (''Y'', \<lparr>parents = [''Z''], properties = []\<rparr>),
         (''Z'', \<lparr>parents = [], properties = []\<rparr>)]"
  let ?rank = "\<lambda>n. if n = ''X'' then 2 else if n = ''Y'' then 1 else (0::nat)"
  have h: "\<forall>n p. p \<in> set (parents (nodeOf ?g n)) \<longrightarrow> ?rank p < ?rank n"
    by (simp add: nodeOf_def emptyNode_def)
  from is_terminates_without_cycle [of ?g ?rank "''X''" "''Z''", OF h]
  have c: "\<exists>b. \<forall>k. 2 < k \<longrightarrow> SongNode_is k ?g ''X'' ''Z'' = Some b" by simp
  from h have "\<not> (\<exists>n p. p \<in> set (parents (nodeOf ?g n)) \<and> \<not> ?rank p < ?rank n)"
    by blast
  with c show ?thesis by (rule conjI [rotated])
qed

lemma self_parent_never_returns:
  "SongNode_is k [(''X'', \<lparr>parents = [''X''], properties = []\<rparr>)] ''X'' ''Y'' = None"
  by (induction k) (simp_all add: nodeOf_def)

text \<open>
  Claim C1, as stated, fails after \<open>X IS X\<close>: the statement is executed without an
  error, \<open>addParent\<close> stores \<open>X\<close> among the parents of \<open>X\<close>, and \<open>X.is("Y")\<close> then
  calls itself without end; no depth budget yields a result.
\<close>

theorem is_self_parent_counterexample:
  "snd (run (Suc 0) [Relation ''X'' ''IS'' [LStr ''X'']]
          (newInterpreter (\<lambda>i. 1 / 2) (\<lambda>x. ''0''))) = None
   \<and> \<not> (\<exists>k b. SongNode_is k
            (graph (fst (run (Suc 0) [Relation ''X'' ''IS'' [LStr ''X'']]
                          (newInterpreter (\<lambda>i. 1 / 2) (\<lambda>x. ''0'')))))
            ''X'' ''Y'' = Some b)"
proof -
  have g: "graph (fst (run (Suc 0) [Relation ''X'' ''IS'' [LStr ''X'']]
                          (newInterpreter (\<lambda>i. 1 / 2) (\<lambda>x. ''0''))))
           = [(''X'', \<lparr>parents = [''X''], properties = []\<rparr>)]"
    by code_simp
  have e: "snd (run (Suc 0) [Relation ''X'' ''IS'' [LStr ''X'']]
          (newInterpreter (\<lambda>i. 1 / 2) (\<lambda>x. ''0''))) = None"
    by code_simp
  show ?thesis unfolding g using e by (simp add: self_parent_never_returns)
qed

subsection \<open>Role bindings after an exception in a relation body\<close>

text \<open>
  Claim C2. With the relation \<open>Hit\<close> of one role \<open>Attacker\<close> and the body
  \<open>(Nope) PRINT\<close>, the invocation \<open>Player Hit\<close> raises \<open>NodeNotFound\<close> out of the body
  and \<open>executeCustomRelation\<close> leaves \<open>Attacker\<close> bound to \<open>Player\<close> in the context;
  with a body that completes, the context is empty afterwards.
\<close>

theorem custom_relation_exception_keeps_roles:
  "snd (run (Suc (Suc (Suc (Suc 0))))
         [Relation ''Hit'' ''IS'' [LStr ''RELATION''],
          RoleDefinition ''Hit'' ''Attacker'',
          DoBlock ''Hit'' [ExpressionPrint (EIdentifier ''Nope'')],
          Relation ''Player'' ''Hit'' []]
         (newInterpreter (\<lambda>i. 1 / 2) (\<lambda>x. ''0''))) = Some NodeNotFound
   \<and> ctx (fst (run (Suc (Suc (Suc (Suc 0))))
         [Relation ''Hit'' ''IS'' [LStr ''RELATION''],
          RoleDefinition ''Hit'' ''Attacker'',
          DoBlock ''Hit'' [ExpressionPrint (EIdentifier ''Nope'')],
          Relation ''Player'' ''Hit'' []]
         (newInterpreter (\<lambda>i. 1 / 2) (\<lambda>x. ''0'')))) = [(''Attacker'', VNode ''Player'')]
   \<and> ctx (fst (run (Suc (Suc (Suc (Suc 0))))
         [Relation ''Hit'' ''IS'' [LStr ''RELATION''],
          RoleDefinition ''Hit'' ''Attacker'',
          DoBlock ''Hit'' [ExpressionPrint (EIdentifier ''Attacker'')],
          Relation ''Player'' ''Hit'' []]
         (newInterpreter (\<lambda>i. 1 / 2) (\<lambda>x. ''0'')))) = []"
  by code_simp

subsection \<open>CAN on a node that inherits abilities\<close>

text \<open>
  Claim C4. After \<open>Knight CAN ATTACK\<close> and \<open>Squire IS Knight\<close>, the statement
  \<open>Squire CAN DEFEND\<close> gives \<open>Squire\<close> no \<open>_Abilities\<close> of its own and inserts
  \<open>DEFEND\<close> into the set of \<open>Knight\<close>.
\<close>

theorem can_changes_the_inherited_set:
  "map_of (properties (nodeOf (graph (fst (run (Suc (Suc (Suc 0)))
       [Can ''Knight'' ''ATTACK'', Relation ''Squire'' ''IS'' [LStr ''Knight''],
        Can ''Squire'' ''DEFEND'']
       (newInterpreter (\<lambda>i. 1 / 2) (\<lambda>x. ''0''))))) ''Squire'')) ''_Abilities'' = None
   \<and> map_of (properties (nodeOf (graph (fst (run (Suc (Suc (Suc 0)))
       [Can ''Knight'' ''ATTACK'', Relation ''Squire'' ''IS'' [LStr ''Knight''],
        Can ''Squire'' ''DEFEND'']
       (newInterpreter (\<lambda>i. 1 / 2) (\<lambda>x. ''0''))))) ''Knight'')) ''_Abilities'' = Some (VSet 0)
   \<and> heap (fst (run (Suc (Suc (Suc 0)))
       [Can ''Knight'' ''ATTACK'', Relation ''Squire'' ''IS'' [LStr ''Knight''],
        Can ''Squire'' ''DEFEND'']
       (newInterpreter (\<lambda>i. 1 / 2) (\<lambda>x. ''0'')))) = [[''ATTACK'', ''DEFEND'']]
   \<and> heap (fst (run (Suc (Suc (Suc 0)))
       [Can ''Knight'' ''ATTACK'', Relation ''Squire'' ''IS'' [LStr ''Knight'']]
       (newInterpreter (\<lambda>i. 1 / 2) (\<lambda>x. ''0'')))) = [[''ATTACK'']]"
  by code_simp

subsection \<open>Parents lists in reachable states\<close>


































































































subsection \<open>The WHERE clause of a query\<close>

text \<open>Evaluation of an expression reads the graph, the store, the context as a map, the
  WHEN subject, the number format and the random sequence, and nothing else; it moves
  the position in the random sequence only.\<close>


lemma jsString_view:
  assumes "graph st' = graph st" and "heap st' = heap st" and "numstr st' = numstr st"
  shows "jsString k st' v = jsString k st v"
proof (induction k arbitrary: v)
  case 0
  show ?case using assms by (cases v) simp_all
next
  case (Suc k)
  then have "jsString k st' = jsString k st" by (intro ext)
  then show ?case using assms by (cases v) simp_all
qed

lemma add_view:
  assumes "graph st' = graph st" and "heap st' = heap st" and "numstr st' = numstr st"
  shows "add k st' l r = add k st l r"
  by (simp add: Spec2Isabelle.add_def jsString_view [OF assms] split: option.splits)

lemma arithmetic_view:
  assumes "graph st' = graph st" and "heap st' = heap st" and "numstr st' = numstr st"
  shows "arithmetic k st' operator l r = arithmetic k st operator l r"
  by (cases operator) (simp_all add: arithmetic_def add_view [OF assms])

lemma resolveIdentifier_view:
  assumes "graph st' = graph st" and "whenSubject st' = whenSubject st"
    and "map_of (ctx st') = map_of (ctx st)"
  shows "resolveIdentifier k st' name = resolveIdentifier k st name"
  by (simp add: resolveIdentifier_def assms split: option.splits)

lemma resolvePropertyAccess_view:
  assumes "graph st' = graph st"
  shows "resolvePropertyAccess k st' obj property = resolvePropertyAccess k st obj property"
  by (cases obj) (simp_all add: resolvePropertyAccess_def assms)

lemma evaluateExpression_view:
  assumes "graph st' = graph st" and "heap st' = heap st" and "numstr st' = numstr st"
    and "whenSubject st' = whenSubject st" and "map_of (ctx st') = map_of (ctx st)"
    and "rand st' = rand st"
  shows "evaluateExpression k st' e i = evaluateExpression k st e i"
proof (induction e arbitrary: i)
  case (EIdentifier name)
  show ?case by (simp add: resolveIdentifier_view [OF assms(1,4,5)])
next
  case (EPropertyAccess object property)
  then show ?case
    by (simp add: resolvePropertyAccess_view [OF assms(1)] split: prod.splits sum.splits)
next
  case (EBinary left operator right)
  then show ?case
    by (simp add: arithmetic_view [OF assms(1,2,3)] split: prod.splits sum.splits)
next
  case (ERandom emin emax)
  then show ?case by (simp add: assms(6) split: prod.splits sum.splits)
qed simp_all

lemma agreeOff_refl: "agreeOff v st st"
  by (simp add: agreeOff_def)

lemma agreeOff_evaluateExpression:
  assumes "agreeOff v st' st"
  shows "evaluateExpression k (ctxSet v x st') e i = evaluateExpression k (ctxSet v x st) e i"
proof (rule evaluateExpression_view)
  show "map_of (ctx (ctxSet v x st')) = map_of (ctx (ctxSet v x st))"
    using assms by (auto simp: agreeOff_def ctxSet_def update_conv' fun_eq_iff)
qed (use assms in \<open>simp_all add: agreeOff_def ctxSet_def\<close>)

lemma agreeOff_step:
  assumes "agreeOff v st' st"
  shows "agreeOff v (ctxDelete v (snd (evaluate k e (ctxSet v x st')))) st"
  using assms
  by (simp add: agreeOff_def ctxDelete_def evaluate_def split_beta ctxSet_def delete_conv'
      update_conv')

lemma rand_ix_step:
  "rand_ix (ctxDelete v (snd (evaluate k e (ctxSet v x st'))))
   = snd (evaluateExpression k (ctxSet v x st') e (rand_ix st'))"
  by (simp add: ctxDelete_def evaluate_def split_beta ctxSet_def)

lemma filterByWhereCondition_state:
  assumes "agreeOff v st' st"
  shows "agreeOff v (snd (filterByWhereCondition k v e nodes st')) st
       \<and> rand_ix (snd (filterByWhereCondition k v e nodes st'))
         = wherePosition k st v e nodes (rand_ix st')"
  using assms
proof (induction nodes arbitrary: st')
  case Nil
  then show ?case by simp
next
  case (Cons n nodes)
  let ?st2 = "ctxDelete v (snd (evaluate k e (ctxSet v (VNode n) st')))"
  have a: "agreeOff v ?st2 st" using Cons.prems by (rule agreeOff_step)
  have i: "rand_ix ?st2 = snd (evaluateExpression k (ctxSet v (VNode n) st) e (rand_ix st'))"
    by (simp add: rand_ix_step agreeOff_evaluateExpression [OF Cons.prems])
  from Cons.IH [OF a] i show ?case by (simp add: split_beta)
qed

lemma filterByWhereCondition_append:
  "filterByWhereCondition k v e (xs @ ys) st
   = (fst (filterByWhereCondition k v e xs st)
        @ fst (filterByWhereCondition k v e ys (snd (filterByWhereCondition k v e xs st))),
      snd (filterByWhereCondition k v e ys (snd (filterByWhereCondition k v e xs st))))"
  by (induction xs arbitrary: st) (simp_all add: split_beta)

lemma filterByWhereCondition_snoc:
  "fst (filterByWhereCondition k v e (xs @ [n]) st)
   = fst (filterByWhereCondition k v e xs st)
     @ (if whereAccepts (fst (evaluateExpression k (ctxSet v (VNode n) st) e
                               (wherePosition k st v e xs (rand_ix st))))
        then [n] else [])"
proof -
  let ?s = "snd (filterByWhereCondition k v e xs st)"
  from filterByWhereCondition_state [OF agreeOff_refl, where nodes = xs and k = k and e = e]
  have a: "agreeOff v ?s st" and i: "rand_ix ?s = wherePosition k st v e xs (rand_ix st)"
    by simp_all
  have "fst (evaluate k e (ctxSet v (VNode n) ?s))
        = fst (evaluateExpression k (ctxSet v (VNode n) st) e
                 (wherePosition k st v e xs (rand_ix st)))"
  proof -
    have "rand_ix (ctxSet v (VNode n) ?s) = rand_ix ?s" by (simp add: ctxSet_def)
    then show ?thesis
      using i by (simp add: evaluate_def split_beta agreeOff_evaluateExpression [OF a])
  qed
  then show ?thesis
    by (simp add: filterByWhereCondition_append split_beta)
qed

lemma whereAccepts_iff:
  "whereAccepts r \<longleftrightarrow> r = Inr (VBool True) \<or> (\<exists>x. x \<noteq> 0 \<and> r = Inr (VNum x))"
  by (auto simp: whereAccepts_def split: sum.splits val.splits)

lemma filterByWhereCondition_whereValue:
  "fst (filterByWhereCondition k v e nodes st)
   = map (\<lambda>j. nodes ! j)
       (filter (\<lambda>j. whereAccepts (whereValue k st v e nodes j)) [0..<length nodes])"
proof (induction nodes rule: rev_induct)
  case Nil
  show ?case by simp
next
  case (snoc n xs)
  have f: "filter (\<lambda>j. whereAccepts (whereValue k st v e (xs @ [n]) j)) [0..<length xs]
           = filter (\<lambda>j. whereAccepts (whereValue k st v e xs j)) [0..<length xs]"
    by (rule filter_cong) (simp_all add: whereValue_def nth_append)
  have m: "map (\<lambda>j. (xs @ [n]) ! j)
             (filter (\<lambda>j. whereAccepts (whereValue k st v e xs j)) [0..<length xs])
           = map (\<lambda>j. xs ! j)
               (filter (\<lambda>j. whereAccepts (whereValue k st v e xs j)) [0..<length xs])"
    by (rule map_cong) (auto simp: nth_append)
  have l: "whereValue k st v e (xs @ [n]) (length xs)
           = fst (evaluateExpression k (ctxSet v (VNode n) st) e
                    (wherePosition k st v e xs (rand_ix st)))"
    by (simp add: whereValue_def)
  show ?case
    by (simp add: filterByWhereCondition_snoc snoc.IH f l m)
qed


lemma filterByWhereCondition_fields:
  "out (snd (filterByWhereCondition k v e nodes st)) = out st"
  "numstr (snd (filterByWhereCondition k v e nodes st)) = numstr st"
  by (induction nodes arbitrary: st)
     (simp_all add: split_beta ctxDelete_def ctxSet_def evaluate_def)

lemma out_outputs: "out (foldl (\<lambda>s l. onOutput l s) st ls) = out st @ ls"
  by (induction ls arbitrary: st) (simp_all add: onOutput_def)

lemma out_numstr_kept:
  "out (setProperty a b c st) = out st" "numstr (setProperty a b c st) = numstr st"
  "out (addParent a b st) = out st" "numstr (addParent a b st) = numstr st"
  "out (fst (heapAlloc ms st)) = out st" "numstr (fst (heapAlloc ms st)) = numstr st"
  "out (onOutput l st) = out st @ [l]"
  by (simp_all add: setProperty_def addParent_def updNode_fields heapAlloc_def onOutput_def)

lemma executeQuery_out:
  assumes "findMatchingNodes k st relation target targetValue = Inr found"
  shows "out (fst (executeQuery k pattern relation target targetValue (Some w) st))
         = out st @ reportLines st
             (case pattern of Variable v \<Rightarrow> ''Query ?'' @ v @ '': '' | Wildcard \<Rightarrow> ''Query: '')
             (fst (filterByWhereCondition k (queryVarName pattern) w found st))"
  by (cases pattern)
     (simp_all add: executeQuery_def assms split_beta out_outputs reportLines_def
        out_numstr_kept getOrCreateNode_fields filterByWhereCondition_fields)

text \<open>
  Claim C5, amended. For a query with a \<open>WHERE\<close> expression, the result list of
  \<open>filterByWhereCondition\<close>, which is the list \<open>executeQuery\<close> reports, contains exactly
  those candidates for which the expression yields the boolean \<open>true\<close> or a number
  other than 0, in the order of the candidates; the expression is evaluated in the
  state of the query with the query variable (or \<open>"_"\<close> for a wildcard) bound to the
  candidate, and it draws from \<open>Math.random()\<close> where the evaluations for the
  candidates before it have stopped. A candidate whose evaluation raises an error is
  left out, and so is one whose value is a string, a node or any other value.
\<close>

theorem where_keeps_true_and_nonzero:
  "fst (filterByWhereCondition k (queryVarName pattern) w nodes st)
   = map (\<lambda>j. nodes ! j)
       (filter (\<lambda>j. whereValue k st (queryVarName pattern) w nodes j = Inr (VBool True)
                    \<or> (\<exists>x. x \<noteq> 0
                          \<and> whereValue k st (queryVarName pattern) w nodes j = Inr (VNum x)))
          [0..<length nodes])
   \<and> (findMatchingNodes k st relation target targetValue = Inr found \<longrightarrow>
        out (fst (executeQuery k pattern relation target targetValue (Some w) st))
        = out st @ reportLines st
            (case pattern of Variable v \<Rightarrow> ''Query ?'' @ v @ '': '' | Wildcard \<Rightarrow> ''Query: '')
            (map (\<lambda>j. found ! j)
               (filter (\<lambda>j. whereValue k st (queryVarName pattern) w found j = Inr (VBool True)
                            \<or> (\<exists>x. x \<noteq> 0
                                  \<and> whereValue k st (queryVarName pattern) w found j
                                    = Inr (VNum x)))
                  [0..<length found])))"
proof -
  have f: "fst (filterByWhereCondition k (queryVarName pattern) w ns st)
   = map (\<lambda>j. ns ! j)
       (filter (\<lambda>j. whereValue k st (queryVarName pattern) w ns j = Inr (VBool True)
                    \<or> (\<exists>x. x \<noteq> 0
                          \<and> whereValue k st (queryVarName pattern) w ns j = Inr (VNum x)))
          [0..<length ns])" for ns
    using filterByWhereCondition_whereValue [of k "queryVarName pattern" w ns st]
    by (simp add: whereAccepts_iff)
  show ?thesis
    using f [of nodes] f [of found]
      executeQuery_out [of k st relation target targetValue found pattern w]
    by simp
qed

theorem where_keeps_true_and_nonzero_witness:
  "findMatchingNodes (Suc (Suc 0))
        (fst (run (Suc 0)
           [Relation ''Orc'' ''HAS'' [LStr ''HP'', LNum 50],
            Relation ''Goblin'' ''HAS'' [LStr ''HP'', LNum 5],
            Relation ''Rock'' ''HAS'' [LStr ''Weight'', LNum 90]]
           (newInterpreter (\<lambda>i. if i = 0 then 0 else 9 / 10) (\<lambda>x. if x = 2 then ''2'' else ''1''))))
        ''IS'' None None = Inr [''Orc'', ''Goblin'', ''Rock'']
   \<and> out (fst (executeQuery (Suc (Suc 0)) (Variable ''m'') ''IS'' None None
        (Some (EBinary (EPropertyAccess (EIdentifier ''m'') ''HP'') OpGreaterThan
                 (ERandom (ENumber 9) (ENumber 10))))
        (fst (run (Suc 0)
           [Relation ''Orc'' ''HAS'' [LStr ''HP'', LNum 50],
            Relation ''Goblin'' ''HAS'' [LStr ''HP'', LNum 5],
            Relation ''Rock'' ''HAS'' [LStr ''Weight'', LNum 90]]
           (newInterpreter (\<lambda>i. if i = 0 then 0 else 9 / 10) (\<lambda>x. if x = 2 then ''2'' else ''1''))))))
     = [Line ''Query ?m: 1 nodes found'', Line ''  - Orc'']
   \<and> out (fst (executeQuery (Suc (Suc 0)) (Variable ''m'') ''IS'' None None
        (Some (ERandom (ENumber 0) (ENumber 1)))
        (fst (run (Suc 0)
           [Relation ''Orc'' ''HAS'' [LStr ''HP'', LNum 50],
            Relation ''Goblin'' ''HAS'' [LStr ''HP'', LNum 5],
            Relation ''Rock'' ''HAS'' [LStr ''Weight'', LNum 90]]
           (newInterpreter (\<lambda>i. if i = 0 then 0 else 9 / 10) (\<lambda>x. if x = 2 then ''2'' else ''1''))))))
     = [Line ''Query ?m: 2 nodes found'', Line ''  - Goblin'', Line ''  - Rock'']"
proof -
  let ?w = "EBinary (EPropertyAccess (EIdentifier ''m'') ''HP'') OpGreaterThan
              (ERandom (ENumber 9) (ENumber 10))"
  let ?r = "ERandom (ENumber 0) (ENumber 1)"
  let ?c = "fst (run (Suc 0)
           [Relation ''Orc'' ''HAS'' [LStr ''HP'', LNum 50],
            Relation ''Goblin'' ''HAS'' [LStr ''HP'', LNum 5],
            Relation ''Rock'' ''HAS'' [LStr ''Weight'', LNum 90]]
           (newInterpreter (\<lambda>i. if i = 0 then 0 else 9 / 10) (\<lambda>x. if x = 2 then ''2'' else ''1'')))"
  let ?ns = "[''Orc'', ''Goblin'', ''Rock'']"
  have fm: "findMatchingNodes (Suc (Suc 0)) ?c ''IS'' None None = Inr ?ns"
    by code_simp
  have ix: "[0..<length ?ns] = [0, Suc 0, Suc (Suc 0)]" by (simp add: upt_rec)
  have e1: "whereValue (Suc (Suc 0)) ?c ''m'' ?w ?ns 0 = Inr (VBool True)"
    by code_simp
  have e2: "whereValue (Suc (Suc 0)) ?c ''m'' ?w ?ns (Suc 0) = Inr (VBool False)"
    by code_simp
  have e3: "whereValue (Suc (Suc 0)) ?c ''m'' ?w ?ns (Suc (Suc 0)) = Inl PropertyNotFound"
    by code_simp
  have r1: "whereValue (Suc (Suc 0)) ?c ''m'' ?r ?ns 0 = Inr (VNum 0)"
    by code_simp
  have r2: "whereValue (Suc (Suc 0)) ?c ''m'' ?r ?ns (Suc 0) = Inr (VNum 1)"
    by code_simp
  have r3: "whereValue (Suc (Suc 0)) ?c ''m'' ?r ?ns (Suc (Suc 0)) = Inr (VNum 1)"
    by code_simp
  have o: "out ?c = []" by code_simp
  have n: "numstr ?c 1 = ''1''" "numstr ?c 2 = ''2''" by code_simp+
  from where_keeps_true_and_nonzero [of "Suc (Suc 0)" "Variable ''m''" ?w "[]" ?c
      "''IS''" None None ?ns] fm
  have a: "out (fst (executeQuery (Suc (Suc 0)) (Variable ''m'') ''IS'' None None (Some ?w) ?c))
        = [Line ''Query ?m: 1 nodes found'', Line ''  - Orc'']"
    by (simp add: queryVarName_def ix e1 e2 e3 o n reportLines_def)
  from where_keeps_true_and_nonzero [of "Suc (Suc 0)" "Variable ''m''" ?r "[]" ?c
      "''IS''" None None ?ns] fm
  have b: "out (fst (executeQuery (Suc (Suc 0)) (Variable ''m'') ''IS'' None None (Some ?r) ?c))
        = [Line ''Query ?m: 2 nodes found'', Line ''  - Goblin'', Line ''  - Rock'']"
    by (simp add: queryVarName_def ix r1 r2 r3 o n reportLines_def)
  from fm a b show ?thesis by simp
qed

text \<open>
  Claim C5, as stated, fails for values that are truthy but neither a boolean nor a
  number: with \<open>WHERE "yes"\<close> the condition is the non-empty string \<open>yes\<close>, with
  \<open>WHERE ?m\<close> it is the candidate node itself; \<open>isTruthy\<close> holds of both and the
  candidate is left out.
\<close>

theorem where_excludes_truthy_counterexample:
  "fst (filterByWhereCondition (Suc 0) (queryVarName Wildcard) (EString ''yes'') [''Orc'']
          (fst (run (Suc 0) [Relation ''Orc'' ''HAS'' [LStr ''HP'', LNum 50]]
                  (newInterpreter (\<lambda>i. 1 / 2) (\<lambda>x. ''1''))))) = []
   \<and> fst (evaluate (Suc 0) (EString ''yes'')
          (ctxSet (queryVarName Wildcard) (VNode ''Orc'')
             (fst (run (Suc 0) [Relation ''Orc'' ''HAS'' [LStr ''HP'', LNum 50]]
                     (newInterpreter (\<lambda>i. 1 / 2) (\<lambda>x. ''1'')))))) = Inr (VStr ''yes'')
   \<and> isTruthy (VStr ''yes'')
   \<and> fst (filterByWhereCondition (Suc 0) (queryVarName (Variable ''m'')) (EIdentifier ''m'') [''Orc'']
          (fst (run (Suc 0) [Relation ''Orc'' ''HAS'' [LStr ''HP'', LNum 50]]
                  (newInterpreter (\<lambda>i. 1 / 2) (\<lambda>x. ''1''))))) = []
   \<and> fst (evaluate (Suc 0) (EIdentifier ''m'')
          (ctxSet (queryVarName (Variable ''m'')) (VNode ''Orc'')
             (fst (run (Suc 0) [Relation ''Orc'' ''HAS'' [LStr ''HP'', LNum 50]]
                     (newInterpreter (\<lambda>i. 1 / 2) (\<lambda>x. ''1'')))))) = Inr (VNode ''Orc'')
   \<and> isTruthy (VNode ''Orc'')"
  by code_simp

end
